theory Spec2Isabelle
  imports Complex_Main "HOL-Library.Word" "HOL-Library.Signed_Division"
begin

section \<open>The emulated camera sensor of the QEMU pipeline (QemuSensor.cpp)\<close>

text \<open>
  A shallow embedding of \<^verbatim>\<open>camera/qemu-pipeline3/QemuSensor.cpp\<close>. The object's fields
  and the memory it touches are one record that every method takes and returns.
  Everything the methods do to the outside (signals on the three condition variables,
  calls of the upstream camera client, listener notifications, clock reads, error and
  warning logs) is appended to a trace, in program order. Everything the outside answers
  (status codes, delivered pixels, clock readings, what other threads did while a
  condition wait had released its mutex) is read from an environment of functions of
  the trace so far.

  A section of code that holds one of the two mutexes is one function of the model, so
  the calls of other threads come between functions, never inside one; what they do
  while a condition wait has released the mutex is part of what the wait returns.
  \<open>threadLoop\<close> is the composition of the sections of one iteration with no call of
  another thread in between. \<^verbatim>\<open>startUp\<close>, \<^verbatim>\<open>shutDown\<close> and \<^verbatim>\<open>waitForVSync\<close> are not
  part of the embedding.
\<close>

subsection \<open>Machine types and platform constants\<close>

type_synonym u8 = "8 word"
type_synonym u32 = "32 word"
type_synonym u64 = "64 word"

text \<open>\<^verbatim>\<open>nsecs_t\<close> is \<^verbatim>\<open>int64_t\<close>: a 64-bit word, read by \<open>sint\<close> where the sign matters.\<close>
type_synonym nsecs_t = "64 word"

text \<open>\<^verbatim>\<open>status_t\<close> is \<^verbatim>\<open>int32_t\<close>.\<close>
type_synonym status_t = "32 word"

text \<open>A nullable pointer: \<open>None\<close> is \<^verbatim>\<open>nullptr\<close>, \<open>Some a\<close> the object at address \<open>a\<close>.\<close>
type_synonym ptr = "nat option"

text \<open>
  The constants below come from platform headers that the file includes
  (\<^verbatim>\<open>utils/Errors.h\<close>, \<^verbatim>\<open>system/graphics.h\<close>, \<^verbatim>\<open>linux/videodev2.h\<close>); their values are
  the platform's.
\<close>

definition OK :: status_t where "OK = 0"
definition NO_ERROR :: status_t where "NO_ERROR = 0"
definition TIMED_OUT :: status_t where "TIMED_OUT = - 110"

definition HAL_PIXEL_FORMAT_RGBA_8888 :: u32 where "HAL_PIXEL_FORMAT_RGBA_8888 = 1"
definition HAL_PIXEL_FORMAT_RGB_888 :: u32 where "HAL_PIXEL_FORMAT_RGB_888 = 3"
definition HAL_PIXEL_FORMAT_BLOB :: u32 where "HAL_PIXEL_FORMAT_BLOB = 33"
definition HAL_PIXEL_FORMAT_YCbCr_420_888 :: u32 where "HAL_PIXEL_FORMAT_YCbCr_420_888 = 35"
definition HAL_DATASPACE_DEPTH :: u32 where "HAL_DATASPACE_DEPTH = 4096"
definition V4L2_PIX_FMT_NV21 :: u32 where "V4L2_PIX_FMT_NV21 = 825382478"

text \<open>The class constants of lines 41 to 48.\<close>

definition kExposureTimeRange :: "nsecs_t \<times> nsecs_t" where
  "kExposureTimeRange = (1000, 300000000)"
definition kFrameDurationRange :: "nsecs_t \<times> nsecs_t" where
  "kFrameDurationRange = (33331760, 300000000)"
definition kMinVerticalBlank :: nsecs_t where "kMinVerticalBlank = 10000"

subsection \<open>Data model\<close>

text \<open>
  One output buffer of a request. The struct is declared in a header outside the source
  file; the fields are the ones the file reads and writes.
\<close>

record StreamBuffer =
  streamId :: u32
  width :: u32
  height :: u32
  format :: u32
  dataSpace :: u32
  stride :: u32
  buffer :: ptr
  img :: ptr

text \<open>\<^verbatim>\<open>Buffers\<close> is a vector of \<^verbatim>\<open>StreamBuffer\<close>.\<close>
type_synonym Buffers = "StreamBuffer list"

text \<open>
  A byte region of the heap: its size and its contents. The heap is the list of the
  regions allocated so far; a region's address is its index, so an address is allocated
  exactly when it is below the length of the heap, and a new region gets an address no
  earlier pointer can hold.
\<close>

record region =
  rsize :: nat
  rdata :: "nat \<Rightarrow> u8"

text \<open>
  The states of the device. The enumeration is declared in the class header, outside
  the source file, which names \<^verbatim>\<open>ECDS_CONNECTED\<close> and \<^verbatim>\<open>ECDS_STARTED\<close>; \<open>ECDS_INITIAL\<close>
  stands for the state before a connection.
\<close>

datatype EmulatedCameraDeviceState = ECDS_INITIAL | ECDS_CONNECTED | ECDS_STARTED

text \<open>The messages of \<^verbatim>\<open>ALOGE\<close>, \<^verbatim>\<open>ALOGW\<close> and \<^verbatim>\<open>ALOGI\<close>, with the values they print.
  \<^verbatim>\<open>ALOGV\<close> and \<^verbatim>\<open>ALOGVV\<close> are compiled out (lines 20 to 29) and leave no trace.\<close>

datatype logmsg =
    RestartingCamera u32 u32 u32 u32
  | UnableToStop
  | UnableToStart
  | StrideMismatch u32 u32
  | NotImplemented
  | DepthUnsupported
  | UnknownFormat u32
  | ReadoutWaitError status_t

datatype event =
    VSyncSignal
  | ReadoutAvailableSignal
  | ReadoutCompleteSignal
  | ReadoutCompleteWait
  | ReadoutAvailableWait nsecs_t status_t
  | ExposureStart nat u32 nsecs_t
  | QueryStop status_t
  | QueryStart u32 u32 u32 status_t
  | QueryFrame ptr ptr nat nat real real real real status_t
  | SystemTime nsecs_t
  | Nanosleep "nsecs_t \<times> nsecs_t" int
  | Log logmsg

text \<open>The readout slot as a condition wait finds it when it returns:
  \<^verbatim>\<open>mCapturedBuffers\<close> and \<^verbatim>\<open>mCaptureTime\<close>.\<close>
type_synonym readout = "ptr \<times> nsecs_t"

record env =
  queryStop :: "event list \<Rightarrow> status_t"
  queryStart :: "event list \<Rightarrow> u32 \<Rightarrow> u32 \<Rightarrow> u32 \<Rightarrow> status_t"
  queryFrame :: "event list \<Rightarrow> ptr \<Rightarrow> ptr \<Rightarrow> nat \<Rightarrow> nat \<Rightarrow> status_t \<times> (nat \<Rightarrow> u8)"
  systemTime :: "event list \<Rightarrow> nsecs_t"
  condWait :: "event list \<Rightarrow> readout \<Rightarrow> readout option"
  condWaitRelative :: "event list \<Rightarrow> nsecs_t \<Rightarrow> readout \<Rightarrow> status_t \<times> readout"
  nanosleep :: "event list \<Rightarrow> nsecs_t \<times> nsecs_t \<Rightarrow> int \<times> (nsecs_t \<times> nsecs_t)"
  uninitialised :: "event list \<Rightarrow> nat \<Rightarrow> u8"
  indeterminate :: "event list \<Rightarrow> u32"

record sensor =
  mLastRequestWidth :: u32
  mLastRequestHeight :: u32
  mState :: EmulatedCameraDeviceState
  mGotVSync :: bool
  mFrameDuration :: u64
  mNextBuffers :: ptr
  mFrameNumber :: u32
  mCapturedBuffers :: ptr
  mCaptureTime :: nsecs_t
  mListener :: ptr
  mStartupTime :: nsecs_t
  mNextCaptureTime :: nsecs_t
  mNextCapturedBuffers :: ptr
  trace :: "event list"
  vectors :: "nat \<Rightarrow> Buffers"
  heap :: "region list"

subsection \<open>The upstream client\<close>

definition emit :: "event \<Rightarrow> sensor \<Rightarrow> sensor" where
  "emit e s = s\<lparr>trace := trace s @ [e]\<rparr>"

definition clientQueryStop :: "env \<Rightarrow> sensor \<Rightarrow> status_t \<times> sensor" where
  "clientQueryStop en s = (let res = queryStop en (trace s) in (res, emit (QueryStop res) s))"

definition clientQueryStart :: "env \<Rightarrow> u32 \<Rightarrow> u32 \<Rightarrow> u32 \<Rightarrow> sensor \<Rightarrow> status_t \<times> sensor" where
  "clientQueryStart en pixFmt w h s =
     (let res = queryStart en (trace s) pixFmt w h in (res, emit (QueryStart pixFmt w h res) s))"

definition deliver :: "ptr \<Rightarrow> nat \<Rightarrow> (nat \<Rightarrow> u8) \<Rightarrow> region list \<Rightarrow> region list" where
  "deliver p n px hp =
     (case p of
        None \<Rightarrow> hp
      | Some a \<Rightarrow>
          if a < length hp
          then hp[a := (hp ! a)\<lparr>rdata := (\<lambda>i. if i < n then px i else rdata (hp ! a) i)\<rparr>]
          else hp)"

text \<open>
  Modelled from the spec: \<^verbatim>\<open>CameraQemuClient::queryFrame\<close> is not in the source file.
  The spec's fetchFrame takes a YUV and an RGBA buffer with their byte counts, delivers
  the next frame into the buffer that is not null and returns a status; a failed fetch
  leaves the output buffer unmodified.
\<close>

definition clientQueryFrame ::
  "env \<Rightarrow> ptr \<Rightarrow> ptr \<Rightarrow> nat \<Rightarrow> nat \<Rightarrow> real \<Rightarrow> real \<Rightarrow> real \<Rightarrow> real \<Rightarrow> sensor \<Rightarrow> sensor" where
  "clientQueryFrame en vframe pframe vsize psize r g b e s =
     (let (res, px) = queryFrame en (trace s) vframe pframe vsize psize;
          hp = (if res = NO_ERROR
                then deliver pframe psize px (deliver vframe vsize px (heap s))
                else heap s)
      in emit (QueryFrame vframe pframe vsize psize r g b e res) (s\<lparr>heap := hp\<rparr>))"

subsection \<open>Capture of one buffer (lines 339 to 470)\<close>

definition captureRGBA :: "env \<Rightarrow> ptr \<Rightarrow> u32 \<Rightarrow> u32 \<Rightarrow> u32 \<Rightarrow> sensor \<Rightarrow> sensor" where
  "captureRGBA en im w h st s =
     (let (started, s3) =
        (if w \<noteq> mLastRequestWidth s \<or> h \<noteq> mLastRequestHeight s then
           (let s0 = emit (Log (RestartingCamera w h (mLastRequestWidth s) (mLastRequestHeight s))) s;
                s1 = (if mLastRequestWidth s0 \<noteq> - 1 \<or> mLastRequestHeight s0 \<noteq> - 1 then
                        (let (res, t) = clientQueryStop en s0
                         in if res = NO_ERROR then t\<lparr>mState := ECDS_CONNECTED\<rparr>
                            else emit (Log UnableToStop) t)
                      else s0);
                pixFmt = V4L2_PIX_FMT_NV21;
                (res, s2) = clientQueryStart en pixFmt w h s1
            in if res = NO_ERROR
               then (True, s2\<lparr>mLastRequestWidth := w, mLastRequestHeight := h,
                               mState := ECDS_STARTED\<rparr>)
               else (False, emit (Log UnableToStart) s2))
         else (True, s))
      in if \<not> started then s3
         else
           (let s4 = (if w \<noteq> st then emit (Log (StrideMismatch w st)) s3 else s3);
                bufferSize = unat (w * h * 4)
            in clientQueryFrame en None im 0 bufferSize 1 1 1 1 s4))"

definition captureRGB :: "ptr \<Rightarrow> u32 \<Rightarrow> u32 \<Rightarrow> u32 \<Rightarrow> sensor \<Rightarrow> sensor" where
  "captureRGB im w h st s = emit (Log NotImplemented) s"

definition captureNV21 :: "env \<Rightarrow> ptr \<Rightarrow> u32 \<Rightarrow> u32 \<Rightarrow> u32 \<Rightarrow> sensor \<Rightarrow> sensor" where
  "captureNV21 en im w h st s =
     (let (started, s3) =
        (if w \<noteq> mLastRequestWidth s \<or> h \<noteq> mLastRequestHeight s then
           (let s0 = emit (Log (RestartingCamera w h (mLastRequestWidth s) (mLastRequestHeight s))) s;
                s1 = (if mLastRequestWidth s0 \<noteq> - 1 \<or> mLastRequestHeight s0 \<noteq> - 1 then
                        (let (res, t) = clientQueryStop en s0
                         in if res = NO_ERROR then t\<lparr>mState := ECDS_CONNECTED\<rparr>
                            else emit (Log UnableToStop) t)
                      else s0);
                pixFmt = V4L2_PIX_FMT_NV21;
                (res, s2) = clientQueryStart en pixFmt w h s1
            in if res = NO_ERROR
               then (True, s2\<lparr>mLastRequestWidth := w, mLastRequestHeight := h,
                               mState := ECDS_STARTED\<rparr>)
               else (False, emit (Log UnableToStart) s2))
         else (True, s))
      in if \<not> started then s3
         else
           (let s4 = (if w \<noteq> st then emit (Log (StrideMismatch w st)) s3 else s3);
                bufferSize = unat ((w * h * 12) div 8)
            in clientQueryFrame en im None bufferSize 0 1 1 1 1 s4))"

subsection \<open>Construction and the control surface (lines 50 to 188)\<close>

text \<open>
  The constructor initialises the fields of its initialiser list; the others keep
  whatever the memory held, here the fields of the record it is given.
\<close>

definition QemuSensor :: "sensor \<Rightarrow> sensor" where
  "QemuSensor raw =
     raw\<lparr>mLastRequestWidth := - 1,
         mLastRequestHeight := - 1,
         mGotVSync := False,
         mFrameDuration := fst kFrameDurationRange,
         mNextBuffers := None,
         mFrameNumber := 0,
         mCapturedBuffers := None,
         mListener := None\<rparr>"

definition setFrameDuration :: "u64 \<Rightarrow> sensor \<Rightarrow> sensor" where
  "setFrameDuration ns s = s\<lparr>mFrameDuration := ns\<rparr>"

definition setDestinationBuffers :: "ptr \<Rightarrow> sensor \<Rightarrow> sensor" where
  "setDestinationBuffers buffers s = s\<lparr>mNextBuffers := buffers\<rparr>"

definition setFrameNumber :: "u32 \<Rightarrow> sensor \<Rightarrow> sensor" where
  "setFrameNumber frameNumber s = s\<lparr>mFrameNumber := frameNumber\<rparr>"

definition setQemuSensorListener :: "ptr \<Rightarrow> sensor \<Rightarrow> sensor" where
  "setQemuSensorListener listener s = s\<lparr>mListener := listener\<rparr>"

text \<open>
  \<^verbatim>\<open>waitForNewFrame\<close> returns its boolean, the value of \<^verbatim>\<open>*captureTime\<close> after the
  call (the argument \<open>captureTime\<close> is its value before) and the new state. While
  \<^verbatim>\<open>waitRelative\<close> has released the readout mutex other threads may write the slot:
  the wait returns its status and the slot as it is when the mutex is held again.
\<close>

definition waitForNewFrame :: "env \<Rightarrow> nsecs_t \<Rightarrow> nsecs_t \<Rightarrow> sensor \<Rightarrow> bool \<times> nsecs_t \<times> sensor" where
  "waitForNewFrame en reltime captureTime s =
     (let (got, s1) =
        (if mCapturedBuffers s = None then
           (let (res, (cb, ct)) =
                  condWaitRelative en (trace s) reltime (mCapturedBuffers s, mCaptureTime s);
                s0 = emit (ReadoutAvailableWait reltime res)
                       (s\<lparr>mCapturedBuffers := cb, mCaptureTime := ct\<rparr>)
            in if res = TIMED_OUT then (False, s0)
               else if res \<noteq> OK \<or> mCapturedBuffers s0 = None
               then (False, emit (Log (ReadoutWaitError res)) s0)
               else (True, s0))
         else (True, s))
      in if \<not> got then (False, captureTime, s1)
         else
           (let s2 = emit ReadoutCompleteSignal s1
            in (True, mCaptureTime s2, s2\<lparr>mCapturedBuffers := None\<rparr>)))"

definition readClock :: "env \<Rightarrow> sensor \<Rightarrow> nsecs_t \<times> sensor" where
  "readClock en s = (let t = systemTime en (trace s) in (t, emit (SystemTime t) s))"

definition readyToRun :: "env \<Rightarrow> sensor \<Rightarrow> sensor" where
  "readyToRun en s =
     (let (t, s1) = readClock en s
      in s1\<lparr>mStartupTime := t, mNextCaptureTime := 0, mNextCapturedBuffers := None\<rparr>)"

subsection \<open>The sensor loop (lines 190 to 337)\<close>

text \<open>The local variables that stage 1 fills from the control slot.\<close>

record snapshot =
  frameDuration :: u64
  nextBuffers :: ptr
  frameNumber :: u32
  listener :: ptr

text \<open>Stage 1, lines 203 to 217, under the control mutex.\<close>

definition readControl :: "sensor \<Rightarrow> snapshot \<times> sensor" where
  "readControl s =
     (let c = \<lparr>frameDuration = mFrameDuration s, nextBuffers = mNextBuffers s,
               frameNumber = mFrameNumber s, listener = mListener s\<rparr>;
          s1 = s\<lparr>mNextBuffers := None\<rparr>;
          s2 = s1\<lparr>mGotVSync := True\<rparr>
      in (c, emit VSyncSignal s2))"

text \<open>
  Stage 3, lines 223 to 260: hand the previous iteration's buffers to the readout slot.
  \<^verbatim>\<open>mReadoutComplete.wait\<close> releases the readout mutex; what it finds in the slot when it
  returns is the environment's, and \<open>None\<close> is a wait that never returns. Its status is
  not looked at and the slot is not tested again (line 251 is an \<^verbatim>\<open>if\<close>).
\<close>

definition readout :: "env \<Rightarrow> sensor \<Rightarrow> sensor option" where
  "readout en s =
     (let (capturedBuffers, captureTime) =
            (if mNextCapturedBuffers s \<noteq> None
             then (mNextCapturedBuffers s, mNextCaptureTime s)
             else (None, 0))
      in if capturedBuffers \<noteq> None then
           (let woken =
                  (if mCapturedBuffers s \<noteq> None then
                     (case condWait en (trace s) (mCapturedBuffers s, mCaptureTime s) of
                        None \<Rightarrow> None
                      | Some (cb, ct) \<Rightarrow>
                          Some (emit ReadoutCompleteWait
                                  (s\<lparr>mCapturedBuffers := cb, mCaptureTime := ct\<rparr>)))
                   else Some s)
            in case woken of
                 None \<Rightarrow> None
               | Some s1 \<Rightarrow>
                   Some (emit ReadoutAvailableSignal
                           (s1\<lparr>mCapturedBuffers := capturedBuffers,
                               mCaptureTime := captureTime\<rparr>)))
         else Some s)"

text \<open>
  The body of the \<^verbatim>\<open>for\<close> loop of line 275 for the buffer \<open>b\<close> of the vector at \<open>p\<close>.
  \<^verbatim>\<open>new uint8_t[n]\<close> appends a region of \<open>n\<close> bytes to the heap, its contents
  uninitialised; \<^verbatim>\<open>StreamBuffer bAux\<close> leaves \<^verbatim>\<open>dataSpace\<close> unset. The size is computed in
  \<^verbatim>\<open>uint32_t\<close>, as the operands are.
\<close>

definition dispatch :: "env \<Rightarrow> nat \<Rightarrow> StreamBuffer \<Rightarrow> sensor \<Rightarrow> sensor" where
  "dispatch en p b s =
     (if format b = HAL_PIXEL_FORMAT_RGB_888 then
        captureRGB (img b) (width b) (height b) (stride b) s
      else if format b = HAL_PIXEL_FORMAT_RGBA_8888 then
        captureRGBA en (img b) (width b) (height b) (stride b) s
      else if format b = HAL_PIXEL_FORMAT_BLOB then
        (if dataSpace b = HAL_DATASPACE_DEPTH then emit (Log DepthUnsupported) s
         else
           (let fresh = \<lparr>rsize = unat (width b * height b * 3),
                         rdata = uninitialised en (trace s)\<rparr>;
                bAux = \<lparr>streamId = 0, width = width b, height = height b,
                        format = HAL_PIXEL_FORMAT_YCbCr_420_888,
                        dataSpace = indeterminate en (trace s),
                        stride = width b, buffer = None,
                        img = Some (length (heap s))\<rparr>
            in s\<lparr>heap := heap s @ [fresh],
                 vectors := (vectors s)(p := vectors s p @ [bAux])\<rparr>))
      else if format b = HAL_PIXEL_FORMAT_YCbCr_420_888 then
        captureNV21 en (img b) (width b) (height b) (stride b) s
      else emit (Log (UnknownFormat (format b))) s)"

text \<open>A BLOB buffer that is not a depth cloud: the one that gets an auxiliary buffer.\<close>

definition isJpeg :: "StreamBuffer \<Rightarrow> bool" where
  "isJpeg b = (format b = HAL_PIXEL_FORMAT_BLOB \<and> dataSpace b \<noteq> HAL_DATASPACE_DEPTH)"

text \<open>
  The \<^verbatim>\<open>for\<close> loop of lines 275 to 316. It reads the size of the vector at every step, so
  a buffer that a step appends is reached by a later step.
\<close>

function captureLoop :: "env \<Rightarrow> nat \<Rightarrow> nat \<Rightarrow> sensor \<Rightarrow> sensor" where
  "captureLoop en p i s =
     (if i < length (vectors s p)
      then captureLoop en p (Suc i) (dispatch en p (vectors s p ! i) s)
      else s)"
  by pat_completeness auto
termination
proof (relation "measure (\<lambda>(en, p, i, s).
        2 * length (filter isJpeg (drop i (vectors s p))) + (length (vectors s p) - i))")
  fix en :: env and p i :: nat and s :: sensor
  assume i: "i < length (vectors s p)"
  let ?b = "vectors s p ! i"
  let ?v = "vectors (dispatch en p ?b s) p"
  have rgba: "vectors (captureRGBA en im w h st s) = vectors s" for im w h st
    by (simp add: captureRGBA_def clientQueryStop_def clientQueryStart_def
        clientQueryFrame_def emit_def Let_def split: prod.splits)
  have nv21: "vectors (captureNV21 en im w h st s) = vectors s" for im w h st
    by (simp add: captureNV21_def clientQueryStop_def clientQueryStart_def
        clientQueryFrame_def emit_def Let_def split: prod.splits)
  have other: "\<not> isJpeg ?b \<Longrightarrow> ?v = vectors s p"
    by (simp add: dispatch_def isJpeg_def captureRGB_def emit_def rgba nv21)
  have blob: "isJpeg ?b \<Longrightarrow> \<exists>aux. ?v = vectors s p @ [aux] \<and> \<not> isJpeg aux"
    by (simp add: dispatch_def isJpeg_def Let_def HAL_PIXEL_FORMAT_RGB_888_def
        HAL_PIXEL_FORMAT_RGBA_8888_def HAL_PIXEL_FORMAT_BLOB_def
        HAL_PIXEL_FORMAT_YCbCr_420_888_def)
  have split: "drop i (vectors s p) = ?b # drop (Suc i) (vectors s p)"
    using i by (simp add: Cons_nth_drop_Suc)
  have "2 * length (filter isJpeg (drop (Suc i) ?v)) + (length ?v - Suc i)
         < 2 * length (filter isJpeg (drop i (vectors s p))) + (length (vectors s p) - i)"
  proof (cases "isJpeg ?b")
    case True
    from blob [OF True] obtain aux where "?v = vectors s p @ [aux]" "\<not> isJpeg aux"
      by blast
    with True i show ?thesis by (simp add: split)
  next
    case False
    with other i show ?thesis by (simp add: split)
  qed
  then show "((en, p, Suc i, dispatch en p (vectors s p ! i) s), (en, p, i, s))
          \<in> measure (\<lambda>(en, p, i, s).
              2 * length (filter isJpeg (drop i (vectors s p))) + (length (vectors s p) - i))"
    by simp
qed simp

declare captureLoop.simps [simp del]

text \<open>Stage 2, lines 265 to 317.\<close>

definition capture :: "env \<Rightarrow> snapshot \<Rightarrow> nsecs_t \<Rightarrow> sensor \<Rightarrow> sensor" where
  "capture en c simulatedTime s =
     (let s1 = s\<lparr>mNextCaptureTime := simulatedTime\<rparr>;
          s2 = s1\<lparr>mNextCapturedBuffers := nextBuffers c\<rparr>
      in case mNextCapturedBuffers s2 of
           None \<Rightarrow> s2
         | Some p \<Rightarrow>
             (let s3 = (case listener c of
                          None \<Rightarrow> s2
                        | Some l \<Rightarrow>
                            emit (ExposureStart l (frameNumber c) (mNextCaptureTime s2)) s2)
              in captureLoop en p 0 s3))"

text \<open>
  The \<^verbatim>\<open>do ... while (ret != 0)\<close> of lines 328 to 330: \<^verbatim>\<open>nanosleep\<close> writes the time
  that remains into its argument, and the loop ends when it returns 0, if it does.
\<close>

partial_function (option) nanosleepLoop :: "env \<Rightarrow> nsecs_t \<times> nsecs_t \<Rightarrow> sensor \<Rightarrow> sensor option" where
  "nanosleepLoop en t s =
     (let (ret, t') = nanosleep en (trace s) t;
          s' = emit (Nanosleep t ret) s
      in if ret \<noteq> 0 then nanosleepLoop en t' s' else Some s')"

text \<open>The division and remainder of C on \<^verbatim>\<open>int64_t\<close>: they truncate towards zero.\<close>

definition quot64 :: "nsecs_t \<Rightarrow> nsecs_t \<Rightarrow> nsecs_t" where
  "quot64 a b = word_of_int (sint a sdiv sint b)"

definition rem64 :: "nsecs_t \<Rightarrow> nsecs_t \<Rightarrow> nsecs_t" where
  "rem64 a b = word_of_int (sint a smod sint b)"

text \<open>
  The vertical blanking interval, lines 319 to 336. The times are \<^verbatim>\<open>int64_t\<close>: the
  comparison and the divisions are the signed ones, and \<^verbatim>\<open>timespec\<close> holds two 64-bit
  fields.
\<close>

definition verticalBlank :: "env \<Rightarrow> nsecs_t \<Rightarrow> nsecs_t \<Rightarrow> sensor \<Rightarrow> sensor option" where
  "verticalBlank en startRealTime frameEndRealTime s =
     (let (workDoneRealTime, s1) = readClock en s;
          timeAccuracy = 2000000;
          slept =
            (if workDoneRealTime <s frameEndRealTime - timeAccuracy then
               nanosleepLoop en
                 (quot64 (frameEndRealTime - workDoneRealTime) 1000000000,
                  rem64 (frameEndRealTime - workDoneRealTime) 1000000000) s1
             else Some s1)
      in case slept of
           None \<Rightarrow> None
         | Some s2 \<Rightarrow> (let (endRealTime, s3) = readClock en s2 in Some s3))"

text \<open>
  One iteration. \<open>None\<close> is an iteration that does not return: the wait on the readout
  slot or the sleep never ends. When it returns it returns \<^verbatim>\<open>true\<close>.
\<close>

definition threadLoop :: "env \<Rightarrow> sensor \<Rightarrow> sensor option" where
  "threadLoop en s =
     (let (c, s1) = readControl s;
          (startRealTime, s2) = readClock en s1;
          simulatedTime = startRealTime;
          frameEndRealTime = startRealTime + frameDuration c
      in case readout en s2 of
           None \<Rightarrow> None
         | Some s3 \<Rightarrow>
             verticalBlank en startRealTime frameEndRealTime (capture en c simulatedTime s3))"

subsection \<open>Observations on traces, and concrete states\<close>

text \<open>The events a method appended: the trace of \<open>s'\<close> after the trace of \<open>s\<close>.\<close>

definition since :: "sensor \<Rightarrow> sensor \<Rightarrow> event list" where
  "since s s' = drop (length (trace s)) (trace s')"

fun isUpstream :: "event \<Rightarrow> bool" where
  "isUpstream (QueryStop r) = True"
| "isUpstream (QueryStart f w h r) = True"
| "isUpstream (QueryFrame v p n m r g b e res) = True"
| "isUpstream _ = False"

text \<open>The calls of the upstream client among some events, in order.\<close>

definition upstream :: "event list \<Rightarrow> event list" where
  "upstream evs = filter isUpstream evs"

fun isFetch :: "event \<Rightarrow> bool" where
  "isFetch (QueryFrame v p n m r g b e res) = True"
| "isFetch _ = False"

text \<open>A sensor object in zeroed memory, with no vector and no heap region.\<close>

definition zeroed :: sensor where
  "zeroed =
     \<lparr>mLastRequestWidth = 0, mLastRequestHeight = 0, mState = ECDS_INITIAL,
      mGotVSync = False, mFrameDuration = 0, mNextBuffers = None, mFrameNumber = 0,
      mCapturedBuffers = None, mCaptureTime = 0, mListener = None, mStartupTime = 0,
      mNextCaptureTime = 0, mNextCapturedBuffers = None, trace = [],
      vectors = (\<lambda>a. []), heap = []\<rparr>"

text \<open>
  An environment where every upstream call succeeds, the clock advances by a
  millisecond per event, a wait on \<^verbatim>\<open>complete\<close> returns once a consumer has emptied the
  slot, a wait on \<^verbatim>\<open>available\<close> times out and \<^verbatim>\<open>nanosleep\<close> is never interrupted.
\<close>

definition calm :: env where
  "calm =
     \<lparr>queryStop = (\<lambda>tr. 0),
      queryStart = (\<lambda>tr f w h. 0),
      queryFrame = (\<lambda>tr v p n m. (0, (\<lambda>i. 255))),
      systemTime = (\<lambda>tr. 1000000 * of_nat (length tr)),
      condWait = (\<lambda>tr r. Some (None, snd r)),
      condWaitRelative = (\<lambda>tr t r. (TIMED_OUT, r)),
      nanosleep = (\<lambda>tr t. (0, (0, 0))),
      uninitialised = (\<lambda>tr i. 0),
      indeterminate = (\<lambda>tr. 0)\<rparr>"

text \<open>A newly constructed sensor that has captured one NV21 frame of 640 by 480 pixels.\<close>

definition started :: sensor where
  "started = captureNV21 calm (Some 0) 640 480 640 (QemuSensor zeroed)"

text \<open>The upstream client of \<open>calm\<close>, except that every start fails.\<close>

definition startFails :: env where
  "startFails = calm\<lparr>queryStart := (\<lambda>tr f w h. - 1)\<rparr>"

fun isCapture :: "event \<Rightarrow> bool" where
  "isCapture (QueryStop r) = True"
| "isCapture (QueryStart f w h r) = True"
| "isCapture (QueryFrame v p n m r g b e res) = True"
| "isCapture (Log m) = True"
| "isCapture _ = False"

fun isExposure :: "event \<Rightarrow> bool" where
  "isExposure (ExposureStart l n t) = True"
| "isExposure _ = False"

text \<open>Requests and buffers for the concrete runs below.\<close>

definition jpeg :: StreamBuffer where
  "jpeg = \<lparr>streamId = 1, width = 1920, height = 1080, format = HAL_PIXEL_FORMAT_BLOB,
           dataSpace = 257, stride = 1920, buffer = Some 7, img = Some 0\<rparr>"

definition depthBuffer :: StreamBuffer where
  "depthBuffer = \<lparr>streamId = 2, width = 320, height = 240, format = HAL_PIXEL_FORMAT_BLOB,
           dataSpace = HAL_DATASPACE_DEPTH, stride = 320, buffer = Some 8, img = Some 0\<rparr>"

definition yuvBuffer :: StreamBuffer where
  "yuvBuffer = \<lparr>streamId = 3, width = 640, height = 480,
           format = HAL_PIXEL_FORMAT_YCbCr_420_888,
           dataSpace = 0, stride = 640, buffer = Some 9, img = Some 0\<rparr>"

definition rgbBuffer :: StreamBuffer where
  "rgbBuffer = \<lparr>streamId = 4, width = 640, height = 480, format = HAL_PIXEL_FORMAT_RGB_888,
           dataSpace = 0, stride = 640, buffer = Some 10, img = Some 0\<rparr>"

definition oddBuffer :: StreamBuffer where
  "oddBuffer = \<lparr>streamId = 5, width = 640, height = 480, format = 99,
           dataSpace = 0, stride = 640, buffer = Some 11, img = Some 0\<rparr>"

text \<open>A newly constructed sensor, one heap region for the caller's images, and at
  address 0 the vector of the request.\<close>

definition requestOf :: "Buffers \<Rightarrow> sensor" where
  "requestOf bs =
     (QemuSensor zeroed)\<lparr>vectors := (\<lambda>a. [])(0 := bs),
                          heap := [\<lparr>rsize = 1000000, rdata = (\<lambda>i. 0)\<rparr>]\<rparr>"

definition jpegRequest :: sensor where
  "jpegRequest = requestOf [jpeg]"

definition mixedRequest :: sensor where
  "mixedRequest = requestOf [depthBuffer, yuvBuffer, rgbBuffer, oddBuffer]"

text \<open>The control snapshot of frame 1 for the vector at address 0, with the listener 5
  registered.\<close>

definition listened :: snapshot where
  "listened = \<lparr>frameDuration = 33331760, nextBuffers = Some 0, frameNumber = 1,
               listener = Some 5\<rparr>"

fun isTiming :: "event \<Rightarrow> bool" where
  "isTiming (SystemTime t) = True"
| "isTiming (Nanosleep t r) = True"
| "isTiming _ = False"

fun isPipeline :: "event \<Rightarrow> bool" where
  "isPipeline VSyncSignal = True"
| "isPipeline ReadoutAvailableSignal = True"
| "isPipeline (ExposureStart l n t) = True"
| "isPipeline _ = False"

text \<open>
  A sensor thread about to run: the listener 5 is registered and frame 1 is announced.
  \<open>firstFrame\<close> has the request of one YCbCr_420_888 buffer submitted as well.
  \<open>afterFirst\<close> is the state after one iteration on it, \<open>afterIdle\<close> after one more
  iteration with nothing submitted, and \<open>afterSecond\<close> after an iteration with the same
  vector submitted again as frame 2.
\<close>

definition waiting :: sensor where
  "waiting =
     setQemuSensorListener (Some 5)
       (setFrameNumber 1 (readyToRun calm (requestOf [yuvBuffer])))"

definition firstFrame :: sensor where
  "firstFrame = setDestinationBuffers (Some 0) waiting"

definition afterFirst :: sensor where
  "afterFirst = the (threadLoop calm firstFrame)"

definition afterIdle :: sensor where
  "afterIdle = the (threadLoop calm afterFirst)"

definition secondFrame :: sensor where
  "secondFrame = setDestinationBuffers (Some 0) (setFrameNumber 2 afterFirst)"

definition afterSecond :: sensor where
  "afterSecond = the (threadLoop calm secondFrame)"

text \<open>
  A readout slot that holds the unread set at address 1, captured at time 100, while the
  worker is about to publish the set at address 2, captured at time 200; and an
  environment in which the wait on \<^verbatim>\<open>complete\<close> returns with the slot as it was, no
  consumer having collected anything (a spurious wake-up, or a wait that fails).
\<close>

definition stalled :: sensor where
  "stalled = (QemuSensor zeroed)\<lparr>mCapturedBuffers := Some 1, mCaptureTime := 100,
                                 mNextCapturedBuffers := Some 2, mNextCaptureTime := 200\<rparr>"

definition spurious :: env where
  "spurious = calm\<lparr>condWait := (\<lambda>tr r. Some r)\<rparr>"

text \<open>An environment in which the wait on \<^verbatim>\<open>available\<close> returns \<^verbatim>\<open>OK\<close> after the
  worker has published the set at address 3, captured at time 300.\<close>

definition delivering :: env where
  "delivering = calm\<lparr>condWaitRelative := (\<lambda>tr t r. (OK, (Some 3, 300)))\<rparr>"

text \<open>
  Two more outcomes of the wait on \<^verbatim>\<open>available\<close>. In \<open>wakeful\<close> the wait returns \<^verbatim>\<open>OK\<close>
  with the slot as it was: the consumer was woken before its deadline and nothing has
  been published yet (a spurious wake-up of the underlying \<^verbatim>\<open>pthread_cond_timedwait\<close>).
  In \<open>overdue\<close> the wait returns \<^verbatim>\<open>TIMED_OUT\<close> and the worker has published the set at
  address 3, captured at time 300, before the consumer got the mutex back.
\<close>

definition wakeful :: env where
  "wakeful = calm\<lparr>condWaitRelative := (\<lambda>tr t r. (OK, r))\<rparr>"

definition overdue :: env where
  "overdue = calm\<lparr>condWaitRelative := (\<lambda>tr t r. (TIMED_OUT, (Some 3, 300)))\<rparr>"

subsection \<open>Notions for the proofs\<close>

text \<open>
  \<^verbatim>\<open>captureRGBA\<close> and \<^verbatim>\<open>captureNV21\<close> contain the same block (lines 342 to 385 and 410 to
  453) and end with the same shape of fetch. The functions below name the parts of that
  block, so that the proofs treat each part once; \<open>captureNV21_restart\<close> and
  \<open>captureRGBA_restart\<close> show that the two capture functions are built from them.
\<close>

definition stopIfStarted :: "env \<Rightarrow> sensor \<Rightarrow> sensor" where
  "stopIfStarted en s0 =
     (if mLastRequestWidth s0 \<noteq> - 1 \<or> mLastRequestHeight s0 \<noteq> - 1 then
        (let (res, t) = clientQueryStop en s0
         in if res = NO_ERROR then t\<lparr>mState := ECDS_CONNECTED\<rparr>
            else emit (Log UnableToStop) t)
      else s0)"

definition startCamera :: "env \<Rightarrow> u32 \<Rightarrow> u32 \<Rightarrow> sensor \<Rightarrow> bool \<times> sensor" where
  "startCamera en w h s1 =
     (let pixFmt = V4L2_PIX_FMT_NV21;
          (res, s2) = clientQueryStart en pixFmt w h s1
      in if res = NO_ERROR
         then (True, s2\<lparr>mLastRequestWidth := w, mLastRequestHeight := h,
                         mState := ECDS_STARTED\<rparr>)
         else (False, emit (Log UnableToStart) s2))"

definition restartCamera :: "env \<Rightarrow> u32 \<Rightarrow> u32 \<Rightarrow> sensor \<Rightarrow> bool \<times> sensor" where
  "restartCamera en w h s =
     startCamera en w h
       (stopIfStarted en
          (emit (Log (RestartingCamera w h (mLastRequestWidth s) (mLastRequestHeight s))) s))"

definition fetchNV21 :: "env \<Rightarrow> ptr \<Rightarrow> u32 \<Rightarrow> u32 \<Rightarrow> u32 \<Rightarrow> sensor \<Rightarrow> sensor" where
  "fetchNV21 en im w h st s3 =
     clientQueryFrame en im None (unat ((w * h * 12) div 8)) 0 1 1 1 1
       (if w \<noteq> st then emit (Log (StrideMismatch w st)) s3 else s3)"

definition fetchRGBA :: "env \<Rightarrow> ptr \<Rightarrow> u32 \<Rightarrow> u32 \<Rightarrow> u32 \<Rightarrow> sensor \<Rightarrow> sensor" where
  "fetchRGBA en im w h st s3 =
     clientQueryFrame en None im 0 (unat (w * h * 4)) 1 1 1 1
       (if w \<noteq> st then emit (Log (StrideMismatch w st)) s3 else s3)"

text \<open>
  \<open>slots\<close> collects the fields that no capture function touches, \<open>kept\<close> those that the
  whole capture stage leaves as they are.
\<close>

definition slots :: "sensor \<Rightarrow> bool \<times> u64 \<times> ptr \<times> u32 \<times> ptr \<times> nsecs_t \<times> ptr \<times> nsecs_t \<times> nsecs_t \<times> ptr" where
  "slots s = (mGotVSync s, mFrameDuration s, mNextBuffers s, mFrameNumber s,
              mCapturedBuffers s, mCaptureTime s, mListener s, mStartupTime s,
              mNextCaptureTime s, mNextCapturedBuffers s)"

definition kept :: "sensor \<Rightarrow> bool \<times> u64 \<times> ptr \<times> u32 \<times> ptr \<times> nsecs_t \<times> ptr \<times> nsecs_t" where
  "kept s = (mGotVSync s, mFrameDuration s, mNextBuffers s, mFrameNumber s,
             mCapturedBuffers s, mCaptureTime s, mListener s, mStartupTime s)"

text \<open>
  \<open>grows s s'\<close>: the trace of \<open>s'\<close> is the trace of \<open>s\<close> followed by upstream calls
  and log messages only. \<open>idles s s'\<close>: \<open>s'\<close> is \<open>s\<close> with clock reads and sleeps
  appended to the trace.
\<close>

definition grows :: "sensor \<Rightarrow> sensor \<Rightarrow> bool" where
  "grows s s' = (\<exists>evs. trace s' = trace s @ evs \<and> list_all isCapture evs)"

definition idles :: "sensor \<Rightarrow> sensor \<Rightarrow> bool" where
  "idles s s' = (\<exists>evs. s' = s\<lparr>trace := trace s @ evs\<rparr> \<and> list_all isTiming evs)"

section \<open>Properties\<close>

subsection \<open>Fields that a step leaves alone\<close>

lemma emit_fields [simp]:
  "trace (emit e s) = trace s @ [e]"
  "vectors (emit e s) = vectors s"
  "heap (emit e s) = heap s"
  "mLastRequestWidth (emit e s) = mLastRequestWidth s"
  "mLastRequestHeight (emit e s) = mLastRequestHeight s"
  "mState (emit e s) = mState s"
  "mGotVSync (emit e s) = mGotVSync s"
  "mFrameDuration (emit e s) = mFrameDuration s"
  "mNextBuffers (emit e s) = mNextBuffers s"
  "mFrameNumber (emit e s) = mFrameNumber s"
  "mCapturedBuffers (emit e s) = mCapturedBuffers s"
  "mCaptureTime (emit e s) = mCaptureTime s"
  "mListener (emit e s) = mListener s"
  "mStartupTime (emit e s) = mStartupTime s"
  "mNextCaptureTime (emit e s) = mNextCaptureTime s"
  "mNextCapturedBuffers (emit e s) = mNextCapturedBuffers s"
  by (simp_all add: emit_def)

lemma clientQueryFrame_vectors [simp]:
  "vectors (clientQueryFrame en v p n m r g b e s) = vectors s"
  by (simp add: clientQueryFrame_def Let_def split: prod.splits)

lemma captureRGBA_vectors [simp]: "vectors (captureRGBA en im w h st s) = vectors s"
  by (simp add: captureRGBA_def clientQueryStop_def clientQueryStart_def Let_def
      split: prod.splits)

lemma captureNV21_vectors [simp]: "vectors (captureNV21 en im w h st s) = vectors s"
  by (simp add: captureNV21_def clientQueryStop_def clientQueryStart_def Let_def
      split: prod.splits)

lemma dispatch_vectors:
  "vectors (dispatch en p b s) p =
     (if isJpeg b
      then vectors s p @
           [\<lparr>streamId = 0, width = width b, height = height b,
             format = HAL_PIXEL_FORMAT_YCbCr_420_888,
             dataSpace = indeterminate en (trace s),
             stride = width b, buffer = None, img = Some (length (heap s))\<rparr>]
      else vectors s p)"
  by (simp add: dispatch_def isJpeg_def captureRGB_def Let_def
      HAL_PIXEL_FORMAT_RGB_888_def HAL_PIXEL_FORMAT_RGBA_8888_def HAL_PIXEL_FORMAT_BLOB_def
      HAL_PIXEL_FORMAT_YCbCr_420_888_def)

lemma dispatch_measure:
  assumes "i < length (vectors s p)"
  shows "2 * length (filter isJpeg (drop (Suc i) (vectors (dispatch en p (vectors s p ! i) s) p)))
           + (length (vectors (dispatch en p (vectors s p ! i) s) p) - Suc i)
         < 2 * length (filter isJpeg (drop i (vectors s p))) + (length (vectors s p) - i)"
proof -
  let ?v = "vectors s p"
  have split: "drop i ?v = (?v ! i) # drop (Suc i) ?v"
    using assms by (simp add: Cons_nth_drop_Suc)
  show ?thesis
  proof (cases "isJpeg (?v ! i)")
    case True
    have "\<not> isJpeg \<lparr>streamId = 0, width = w, height = h,
             format = HAL_PIXEL_FORMAT_YCbCr_420_888, dataSpace = d,
             stride = w, buffer = None, img = Some a\<rparr>" for w h d a
      by (simp add: isJpeg_def HAL_PIXEL_FORMAT_BLOB_def HAL_PIXEL_FORMAT_YCbCr_420_888_def)
    with True assms show ?thesis
      by (simp add: dispatch_vectors split)
  next
    case False
    with assms show ?thesis
      by (simp add: dispatch_vectors split)
  qed
qed

lemma since_append: "trace s' = trace s @ evs \<Longrightarrow> since s s' = evs"
  by (simp add: since_def)

lemma upstream_simps [simp]:
  "upstream [] = []"
  "upstream (e # evs) = (if isUpstream e then e # upstream evs else upstream evs)"
  "upstream (xs @ ys) = upstream xs @ upstream ys"
  by (simp_all add: upstream_def)

subsection \<open>The restart of the upstream device\<close>

lemma captureNV21_restart:
  "captureNV21 en im w h st s =
     (if w \<noteq> mLastRequestWidth s \<or> h \<noteq> mLastRequestHeight s
      then (if fst (restartCamera en w h s)
            then fetchNV21 en im w h st (snd (restartCamera en w h s))
            else snd (restartCamera en w h s))
      else fetchNV21 en im w h st s)"
  by (simp add: captureNV21_def restartCamera_def startCamera_def stopIfStarted_def
      fetchNV21_def Let_def split_beta)

lemma captureRGBA_restart:
  "captureRGBA en im w h st s =
     (if w \<noteq> mLastRequestWidth s \<or> h \<noteq> mLastRequestHeight s
      then (if fst (restartCamera en w h s)
            then fetchRGBA en im w h st (snd (restartCamera en w h s))
            else snd (restartCamera en w h s))
      else fetchRGBA en im w h st s)"
  by (simp add: captureRGBA_def restartCamera_def startCamera_def stopIfStarted_def
      fetchRGBA_def Let_def split_beta)

lemma slots_emit [simp]: "slots (emit e s) = slots s"
  by (simp add: slots_def)

lemma clientQueryFrame_fields [simp]:
  "trace (clientQueryFrame en v p n m r g b e s) =
     trace s @ [QueryFrame v p n m r g b e (fst (queryFrame en (trace s) v p n m))]"
  "mLastRequestWidth (clientQueryFrame en v p n m r g b e s) = mLastRequestWidth s"
  "mLastRequestHeight (clientQueryFrame en v p n m r g b e s) = mLastRequestHeight s"
  "mState (clientQueryFrame en v p n m r g b e s) = mState s"
  "slots (clientQueryFrame en v p n m r g b e s) = slots s"
  by (simp_all add: clientQueryFrame_def slots_def Let_def split_beta)

lemma stopIfStarted_fields:
  "trace (stopIfStarted en s) =
     trace s @
     (if mLastRequestWidth s = - 1 \<and> mLastRequestHeight s = - 1 then []
      else QueryStop (queryStop en (trace s))
           # (if queryStop en (trace s) = NO_ERROR then [] else [Log UnableToStop]))"
  "mLastRequestWidth (stopIfStarted en s) = mLastRequestWidth s"
  "mLastRequestHeight (stopIfStarted en s) = mLastRequestHeight s"
  "mState (stopIfStarted en s) =
     (if (mLastRequestWidth s \<noteq> - 1 \<or> mLastRequestHeight s \<noteq> - 1)
         \<and> queryStop en (trace s) = NO_ERROR
      then ECDS_CONNECTED else mState s)"
  "heap (stopIfStarted en s) = heap s"
  "vectors (stopIfStarted en s) = vectors s"
  "slots (stopIfStarted en s) = slots s"
  by (simp_all add: stopIfStarted_def clientQueryStop_def slots_def Let_def)

lemma startCamera_fields:
  "fst (startCamera en w h s) = (queryStart en (trace s) V4L2_PIX_FMT_NV21 w h = NO_ERROR)"
  "trace (snd (startCamera en w h s)) =
     trace s @
     QueryStart V4L2_PIX_FMT_NV21 w h (queryStart en (trace s) V4L2_PIX_FMT_NV21 w h)
     # (if queryStart en (trace s) V4L2_PIX_FMT_NV21 w h = NO_ERROR then []
        else [Log UnableToStart])"
  "mLastRequestWidth (snd (startCamera en w h s)) =
     (if queryStart en (trace s) V4L2_PIX_FMT_NV21 w h = NO_ERROR then w
      else mLastRequestWidth s)"
  "mLastRequestHeight (snd (startCamera en w h s)) =
     (if queryStart en (trace s) V4L2_PIX_FMT_NV21 w h = NO_ERROR then h
      else mLastRequestHeight s)"
  "mState (snd (startCamera en w h s)) =
     (if queryStart en (trace s) V4L2_PIX_FMT_NV21 w h = NO_ERROR then ECDS_STARTED
      else mState s)"
  "heap (snd (startCamera en w h s)) = heap s"
  "vectors (snd (startCamera en w h s)) = vectors s"
  "slots (snd (startCamera en w h s)) = slots s"
  by (simp_all add: startCamera_def clientQueryStart_def slots_def Let_def)

lemma fetchNV21_fields:
  "trace (fetchNV21 en im w h st s) =
     trace s @ (if w \<noteq> st then [Log (StrideMismatch w st)] else []) @
     [QueryFrame im None (unat ((w * h * 12) div 8)) 0 1 1 1 1
        (fst (queryFrame en (trace s @ (if w \<noteq> st then [Log (StrideMismatch w st)] else []))
               im None (unat ((w * h * 12) div 8)) 0))]"
  "mLastRequestWidth (fetchNV21 en im w h st s) = mLastRequestWidth s"
  "mLastRequestHeight (fetchNV21 en im w h st s) = mLastRequestHeight s"
  "mState (fetchNV21 en im w h st s) = mState s"
  "vectors (fetchNV21 en im w h st s) = vectors s"
  "slots (fetchNV21 en im w h st s) = slots s"
  by (simp_all add: fetchNV21_def)

lemma fetchRGBA_fields:
  "trace (fetchRGBA en im w h st s) =
     trace s @ (if w \<noteq> st then [Log (StrideMismatch w st)] else []) @
     [QueryFrame None im 0 (unat (w * h * 4)) 1 1 1 1
        (fst (queryFrame en (trace s @ (if w \<noteq> st then [Log (StrideMismatch w st)] else []))
               None im 0 (unat (w * h * 4))))]"
  "mLastRequestWidth (fetchRGBA en im w h st s) = mLastRequestWidth s"
  "mLastRequestHeight (fetchRGBA en im w h st s) = mLastRequestHeight s"
  "mState (fetchRGBA en im w h st s) = mState s"
  "vectors (fetchRGBA en im w h st s) = vectors s"
  "slots (fetchRGBA en im w h st s) = slots s"
  by (simp_all add: fetchRGBA_def)

lemma since_self [simp]: "since s s = []"
  by (simp add: since_def)

lemma since_emit [simp]: "since s (emit e s) = [e]"
  by (simp add: since_def)

lemma restartCamera_calls:
  "\<exists>rs rt.
     trace (snd (restartCamera en w h s)) =
       trace s @
       Log (RestartingCamera w h (mLastRequestWidth s) (mLastRequestHeight s))
       # (if mLastRequestWidth s = - 1 \<and> mLastRequestHeight s = - 1 then []
          else QueryStop rs # (if rs = NO_ERROR then [] else [Log UnableToStop]))
       @ QueryStart V4L2_PIX_FMT_NV21 w h rt
       # (if rt = NO_ERROR then [] else [Log UnableToStart])
     \<and> fst (restartCamera en w h s) = (rt = NO_ERROR)
     \<and> mLastRequestWidth (snd (restartCamera en w h s)) =
         (if rt = NO_ERROR then w else mLastRequestWidth s)
     \<and> mLastRequestHeight (snd (restartCamera en w h s)) =
         (if rt = NO_ERROR then h else mLastRequestHeight s)
     \<and> mState (snd (restartCamera en w h s)) =
         (if rt = NO_ERROR then ECDS_STARTED
          else if \<not> (mLastRequestWidth s = - 1 \<and> mLastRequestHeight s = - 1) \<and> rs = NO_ERROR
          then ECDS_CONNECTED else mState s)"
proof -
  define s0 where
    "s0 = emit (Log (RestartingCamera w h (mLastRequestWidth s) (mLastRequestHeight s))) s"
  have r: "restartCamera en w h s = startCamera en w h (stopIfStarted en s0)"
    by (simp add: restartCamera_def s0_def)
  show ?thesis
    apply (rule exI [of _ "queryStop en (trace s0)"])
    apply (rule exI [of _ "queryStart en (trace (stopIfStarted en s0)) V4L2_PIX_FMT_NV21 w h"])
    apply (simp add: r startCamera_fields stopIfStarted_fields)
    apply (simp add: s0_def)
    done
qed

lemma restartCamera_frame:
  "heap (snd (restartCamera en w h s)) = heap s"
  "vectors (snd (restartCamera en w h s)) = vectors s"
  "slots (snd (restartCamera en w h s)) = slots s"
  by (simp_all add: restartCamera_def startCamera_fields stopIfStarted_fields)

lemma captureNV21_trace:
  "\<exists>rs rt rf.
     trace (captureNV21 en im w h st s) =
       trace s @
       (if w = mLastRequestWidth s \<and> h = mLastRequestHeight s then []
        else Log (RestartingCamera w h (mLastRequestWidth s) (mLastRequestHeight s))
             # (if mLastRequestWidth s = - 1 \<and> mLastRequestHeight s = - 1 then []
                else QueryStop rs # (if rs = NO_ERROR then [] else [Log UnableToStop]))
             @ QueryStart V4L2_PIX_FMT_NV21 w h rt
             # (if rt = NO_ERROR then [] else [Log UnableToStart]))
       @ (if (w = mLastRequestWidth s \<and> h = mLastRequestHeight s) \<or> rt = NO_ERROR
          then (if w \<noteq> st then [Log (StrideMismatch w st)] else [])
               @ [QueryFrame im None (unat ((w * h * 12) div 8)) 0 1 1 1 1 rf]
          else [])
     \<and> mLastRequestWidth (captureNV21 en im w h st s) =
         (if rt = NO_ERROR then w else mLastRequestWidth s)
     \<and> mLastRequestHeight (captureNV21 en im w h st s) =
         (if rt = NO_ERROR then h else mLastRequestHeight s)
     \<and> mState (captureNV21 en im w h st s) =
         (if w = mLastRequestWidth s \<and> h = mLastRequestHeight s then mState s
          else if rt = NO_ERROR then ECDS_STARTED
          else if \<not> (mLastRequestWidth s = - 1 \<and> mLastRequestHeight s = - 1) \<and> rs = NO_ERROR
          then ECDS_CONNECTED else mState s)"
proof (cases "w = mLastRequestWidth s \<and> h = mLastRequestHeight s")
  case True
  then have c: "captureNV21 en im w h st s = fetchNV21 en im w h st s"
    by (simp add: captureNV21_restart)
  show ?thesis
    unfolding c fetchNV21_fields
    apply (rule exI [of _ NO_ERROR])
    apply (rule exI [of _ NO_ERROR])
    apply (rule exI [of _ "fst (queryFrame en
             (trace s @ (if w \<noteq> st then [Log (StrideMismatch w st)] else []))
             im None (unat ((w * h * 12) div 8)) 0)"])
    using True apply simp
    done
next
  case False
  obtain rs rt where R:
    "trace (snd (restartCamera en w h s)) =
       trace s @
       Log (RestartingCamera w h (mLastRequestWidth s) (mLastRequestHeight s))
       # (if mLastRequestWidth s = - 1 \<and> mLastRequestHeight s = - 1 then []
          else QueryStop rs # (if rs = NO_ERROR then [] else [Log UnableToStop]))
       @ QueryStart V4L2_PIX_FMT_NV21 w h rt
       # (if rt = NO_ERROR then [] else [Log UnableToStart])"
    "fst (restartCamera en w h s) = (rt = NO_ERROR)"
    "mLastRequestWidth (snd (restartCamera en w h s)) =
         (if rt = NO_ERROR then w else mLastRequestWidth s)"
    "mLastRequestHeight (snd (restartCamera en w h s)) =
         (if rt = NO_ERROR then h else mLastRequestHeight s)"
    "mState (snd (restartCamera en w h s)) =
         (if rt = NO_ERROR then ECDS_STARTED
          else if \<not> (mLastRequestWidth s = - 1 \<and> mLastRequestHeight s = - 1) \<and> rs = NO_ERROR
          then ECDS_CONNECTED else mState s)"
    using restartCamera_calls [of en w h s] by blast
  show ?thesis
  proof (cases "rt = NO_ERROR")
    case True
    with False R(2) have c: "captureNV21 en im w h st s =
        fetchNV21 en im w h st (snd (restartCamera en w h s))"
      by (simp add: captureNV21_restart)
    show ?thesis
      unfolding c fetchNV21_fields R
      apply (rule exI [of _ rs])
      apply (rule exI [of _ rt])
      apply (rule exI [of _ "fst (queryFrame en
             (trace (snd (restartCamera en w h s))
              @ (if w \<noteq> st then [Log (StrideMismatch w st)] else []))
             im None (unat ((w * h * 12) div 8)) 0)"])
      using False True apply (simp add: R)
      done
  next
    case rt: False
    with False R(2) have c: "captureNV21 en im w h st s = snd (restartCamera en w h s)"
      by (simp add: captureNV21_restart)
    show ?thesis
      unfolding c R
      apply (rule exI [of _ rs])
      apply (rule exI [of _ rt])
      using False rt apply simp
      done
  qed
qed

lemma captureRGBA_trace:
  "\<exists>rs rt rf.
     trace (captureRGBA en im w h st s) =
       trace s @
       (if w = mLastRequestWidth s \<and> h = mLastRequestHeight s then []
        else Log (RestartingCamera w h (mLastRequestWidth s) (mLastRequestHeight s))
             # (if mLastRequestWidth s = - 1 \<and> mLastRequestHeight s = - 1 then []
                else QueryStop rs # (if rs = NO_ERROR then [] else [Log UnableToStop]))
             @ QueryStart V4L2_PIX_FMT_NV21 w h rt
             # (if rt = NO_ERROR then [] else [Log UnableToStart]))
       @ (if (w = mLastRequestWidth s \<and> h = mLastRequestHeight s) \<or> rt = NO_ERROR
          then (if w \<noteq> st then [Log (StrideMismatch w st)] else [])
               @ [QueryFrame None im 0 (unat (w * h * 4)) 1 1 1 1 rf]
          else [])
     \<and> mLastRequestWidth (captureRGBA en im w h st s) =
         (if rt = NO_ERROR then w else mLastRequestWidth s)
     \<and> mLastRequestHeight (captureRGBA en im w h st s) =
         (if rt = NO_ERROR then h else mLastRequestHeight s)
     \<and> mState (captureRGBA en im w h st s) =
         (if w = mLastRequestWidth s \<and> h = mLastRequestHeight s then mState s
          else if rt = NO_ERROR then ECDS_STARTED
          else if \<not> (mLastRequestWidth s = - 1 \<and> mLastRequestHeight s = - 1) \<and> rs = NO_ERROR
          then ECDS_CONNECTED else mState s)"
proof (cases "w = mLastRequestWidth s \<and> h = mLastRequestHeight s")
  case True
  then have c: "captureRGBA en im w h st s = fetchRGBA en im w h st s"
    by (simp add: captureRGBA_restart)
  show ?thesis
    unfolding c fetchRGBA_fields
    apply (rule exI [of _ NO_ERROR])
    apply (rule exI [of _ NO_ERROR])
    apply (rule exI [of _ "fst (queryFrame en
             (trace s @ (if w \<noteq> st then [Log (StrideMismatch w st)] else []))
             None im 0 (unat (w * h * 4)))"])
    using True apply simp
    done
next
  case False
  obtain rs rt where R:
    "trace (snd (restartCamera en w h s)) =
       trace s @
       Log (RestartingCamera w h (mLastRequestWidth s) (mLastRequestHeight s))
       # (if mLastRequestWidth s = - 1 \<and> mLastRequestHeight s = - 1 then []
          else QueryStop rs # (if rs = NO_ERROR then [] else [Log UnableToStop]))
       @ QueryStart V4L2_PIX_FMT_NV21 w h rt
       # (if rt = NO_ERROR then [] else [Log UnableToStart])"
    "fst (restartCamera en w h s) = (rt = NO_ERROR)"
    "mLastRequestWidth (snd (restartCamera en w h s)) =
         (if rt = NO_ERROR then w else mLastRequestWidth s)"
    "mLastRequestHeight (snd (restartCamera en w h s)) =
         (if rt = NO_ERROR then h else mLastRequestHeight s)"
    "mState (snd (restartCamera en w h s)) =
         (if rt = NO_ERROR then ECDS_STARTED
          else if \<not> (mLastRequestWidth s = - 1 \<and> mLastRequestHeight s = - 1) \<and> rs = NO_ERROR
          then ECDS_CONNECTED else mState s)"
    using restartCamera_calls [of en w h s] by blast
  show ?thesis
  proof (cases "rt = NO_ERROR")
    case True
    with False R(2) have c: "captureRGBA en im w h st s =
        fetchRGBA en im w h st (snd (restartCamera en w h s))"
      by (simp add: captureRGBA_restart)
    show ?thesis
      unfolding c fetchRGBA_fields R
      apply (rule exI [of _ rs])
      apply (rule exI [of _ rt])
      apply (rule exI [of _ "fst (queryFrame en
             (trace (snd (restartCamera en w h s))
              @ (if w \<noteq> st then [Log (StrideMismatch w st)] else []))
             None im 0 (unat (w * h * 4)))"])
      using False True apply (simp add: R)
      done
  next
    case rt: False
    with False R(2) have c: "captureRGBA en im w h st s = snd (restartCamera en w h s)"
      by (simp add: captureRGBA_restart)
    show ?thesis
      unfolding c R
      apply (rule exI [of _ rs])
      apply (rule exI [of _ rt])
      using False rt apply simp
      done
  qed
qed

lemma captureNV21_calls:
  "\<exists>rs rt rf.
      upstream (since s (captureNV21 en im w h st s)) =
        (if w = mLastRequestWidth s \<and> h = mLastRequestHeight s
         then [QueryFrame im None (unat ((w * h * 12) div 8)) 0 1 1 1 1 rf]
         else (if mLastRequestWidth s = - 1 \<and> mLastRequestHeight s = - 1 then []
               else [QueryStop rs])
              @ [QueryStart V4L2_PIX_FMT_NV21 w h rt]
              @ (if rt = NO_ERROR
                 then [QueryFrame im None (unat ((w * h * 12) div 8)) 0 1 1 1 1 rf]
                 else []))
      \<and> mLastRequestWidth (captureNV21 en im w h st s) =
          (if rt = NO_ERROR then w else mLastRequestWidth s)
      \<and> mLastRequestHeight (captureNV21 en im w h st s) =
          (if rt = NO_ERROR then h else mLastRequestHeight s)
      \<and> mState (captureNV21 en im w h st s) =
          (if w = mLastRequestWidth s \<and> h = mLastRequestHeight s then mState s
           else if rt = NO_ERROR then ECDS_STARTED
           else if \<not> (mLastRequestWidth s = - 1 \<and> mLastRequestHeight s = - 1)
                   \<and> rs = NO_ERROR
           then ECDS_CONNECTED else mState s)"
proof -
  obtain rs rt rf where nv:
    "trace (captureNV21 en im w h st s) =
       trace s @
       (if w = mLastRequestWidth s \<and> h = mLastRequestHeight s then []
        else Log (RestartingCamera w h (mLastRequestWidth s) (mLastRequestHeight s))
             # (if mLastRequestWidth s = - 1 \<and> mLastRequestHeight s = - 1 then []
                else QueryStop rs # (if rs = NO_ERROR then [] else [Log UnableToStop]))
             @ QueryStart V4L2_PIX_FMT_NV21 w h rt
             # (if rt = NO_ERROR then [] else [Log UnableToStart]))
       @ (if (w = mLastRequestWidth s \<and> h = mLastRequestHeight s) \<or> rt = NO_ERROR
          then (if w \<noteq> st then [Log (StrideMismatch w st)] else [])
               @ [QueryFrame im None (unat ((w * h * 12) div 8)) 0 1 1 1 1 rf]
          else [])"
    and nvl: "mLastRequestWidth (captureNV21 en im w h st s) =
         (if rt = NO_ERROR then w else mLastRequestWidth s)"
     "mLastRequestHeight (captureNV21 en im w h st s) =
         (if rt = NO_ERROR then h else mLastRequestHeight s)"
     "mState (captureNV21 en im w h st s) =
         (if w = mLastRequestWidth s \<and> h = mLastRequestHeight s then mState s
          else if rt = NO_ERROR then ECDS_STARTED
          else if \<not> (mLastRequestWidth s = - 1 \<and> mLastRequestHeight s = - 1) \<and> rs = NO_ERROR
          then ECDS_CONNECTED else mState s)"
    using captureNV21_trace [of en im w h st s] by blast
  have a: "upstream (since s (captureNV21 en im w h st s)) =
        (if w = mLastRequestWidth s \<and> h = mLastRequestHeight s
         then [QueryFrame im None (unat ((w * h * 12) div 8)) 0 1 1 1 1 rf]
         else (if mLastRequestWidth s = - 1 \<and> mLastRequestHeight s = - 1 then []
               else [QueryStop rs])
              @ [QueryStart V4L2_PIX_FMT_NV21 w h rt]
              @ (if rt = NO_ERROR
                 then [QueryFrame im None (unat ((w * h * 12) div 8)) 0 1 1 1 1 rf]
                 else []))"
    unfolding since_append [OF nv]
    by (cases "w = mLastRequestWidth s \<and> h = mLastRequestHeight s";
        cases "mLastRequestWidth s = - 1 \<and> mLastRequestHeight s = - 1";
        cases "rt = NO_ERROR"; cases "rs = NO_ERROR"; cases "w = st")
       simp_all
  from a nvl show ?thesis by blast
qed

lemma captureRGBA_calls:
  "\<exists>rs rt rf.
      upstream (since s (captureRGBA en im w h st s)) =
        (if w = mLastRequestWidth s \<and> h = mLastRequestHeight s
         then [QueryFrame None im 0 (unat (w * h * 4)) 1 1 1 1 rf]
         else (if mLastRequestWidth s = - 1 \<and> mLastRequestHeight s = - 1 then []
               else [QueryStop rs])
              @ [QueryStart V4L2_PIX_FMT_NV21 w h rt]
              @ (if rt = NO_ERROR
                 then [QueryFrame None im 0 (unat (w * h * 4)) 1 1 1 1 rf]
                 else []))
      \<and> mLastRequestWidth (captureRGBA en im w h st s) =
          (if rt = NO_ERROR then w else mLastRequestWidth s)
      \<and> mLastRequestHeight (captureRGBA en im w h st s) =
          (if rt = NO_ERROR then h else mLastRequestHeight s)
      \<and> mState (captureRGBA en im w h st s) =
          (if w = mLastRequestWidth s \<and> h = mLastRequestHeight s then mState s
           else if rt = NO_ERROR then ECDS_STARTED
           else if \<not> (mLastRequestWidth s = - 1 \<and> mLastRequestHeight s = - 1)
                   \<and> rs = NO_ERROR
           then ECDS_CONNECTED else mState s)"
proof -
  obtain rs rt rf where nv:
    "trace (captureRGBA en im w h st s) =
       trace s @
       (if w = mLastRequestWidth s \<and> h = mLastRequestHeight s then []
        else Log (RestartingCamera w h (mLastRequestWidth s) (mLastRequestHeight s))
             # (if mLastRequestWidth s = - 1 \<and> mLastRequestHeight s = - 1 then []
                else QueryStop rs # (if rs = NO_ERROR then [] else [Log UnableToStop]))
             @ QueryStart V4L2_PIX_FMT_NV21 w h rt
             # (if rt = NO_ERROR then [] else [Log UnableToStart]))
       @ (if (w = mLastRequestWidth s \<and> h = mLastRequestHeight s) \<or> rt = NO_ERROR
          then (if w \<noteq> st then [Log (StrideMismatch w st)] else [])
               @ [QueryFrame None im 0 (unat (w * h * 4)) 1 1 1 1 rf]
          else [])"
    and nvl: "mLastRequestWidth (captureRGBA en im w h st s) =
         (if rt = NO_ERROR then w else mLastRequestWidth s)"
     "mLastRequestHeight (captureRGBA en im w h st s) =
         (if rt = NO_ERROR then h else mLastRequestHeight s)"
     "mState (captureRGBA en im w h st s) =
         (if w = mLastRequestWidth s \<and> h = mLastRequestHeight s then mState s
          else if rt = NO_ERROR then ECDS_STARTED
          else if \<not> (mLastRequestWidth s = - 1 \<and> mLastRequestHeight s = - 1) \<and> rs = NO_ERROR
          then ECDS_CONNECTED else mState s)"
    using captureRGBA_trace [of en im w h st s] by blast
  have a: "upstream (since s (captureRGBA en im w h st s)) =
        (if w = mLastRequestWidth s \<and> h = mLastRequestHeight s
         then [QueryFrame None im 0 (unat (w * h * 4)) 1 1 1 1 rf]
         else (if mLastRequestWidth s = - 1 \<and> mLastRequestHeight s = - 1 then []
               else [QueryStop rs])
              @ [QueryStart V4L2_PIX_FMT_NV21 w h rt]
              @ (if rt = NO_ERROR
                 then [QueryFrame None im 0 (unat (w * h * 4)) 1 1 1 1 rf]
                 else []))"
    unfolding since_append [OF nv]
    by (cases "w = mLastRequestWidth s \<and> h = mLastRequestHeight s";
        cases "mLastRequestWidth s = - 1 \<and> mLastRequestHeight s = - 1";
        cases "rt = NO_ERROR"; cases "rs = NO_ERROR"; cases "w = st")
       simp_all
  from a nvl show ?thesis by blast
qed

subsection \<open>The resolution latch\<close>

text \<open>
  C1. Every \<^verbatim>\<open>captureNV21\<close> and every \<^verbatim>\<open>captureRGBA\<close> of a buffer of \<open>w\<close> by \<open>h\<close>
  pixels makes these calls of the upstream client, in this order, for some statuses
  \<open>rs\<close>, \<open>rt\<close> and \<open>rf\<close> that the client returns. When \<open>(w, h)\<close> is the stored latch:
  the fetch only, neither a stop nor a start. When it differs: a stop exactly when the
  latch is not the sentinel \<open>(-1, -1)\<close>, then \<^verbatim>\<open>start(NV21, w, h)\<close>, and the fetch only
  when the start succeeded. The latch becomes \<open>(w, h)\<close> and the state \<^verbatim>\<open>STARTED\<close> when the
  start succeeds; when it fails the latch keeps its value, and the state is
  \<^verbatim>\<open>CONNECTED\<close> if a stop was made and succeeded. The constructor sets the latch to the
  sentinel. The comparisons are the ones of the code, on 32-bit values.
\<close>

theorem resolution_latch:
  "(\<exists>rs rt rf.
      upstream (since s (captureNV21 en im w h st s)) =
        (if w = mLastRequestWidth s \<and> h = mLastRequestHeight s
         then [QueryFrame im None (unat ((w * h * 12) div 8)) 0 1 1 1 1 rf]
         else (if mLastRequestWidth s = - 1 \<and> mLastRequestHeight s = - 1 then []
               else [QueryStop rs])
              @ [QueryStart V4L2_PIX_FMT_NV21 w h rt]
              @ (if rt = NO_ERROR
                 then [QueryFrame im None (unat ((w * h * 12) div 8)) 0 1 1 1 1 rf]
                 else []))
      \<and> mLastRequestWidth (captureNV21 en im w h st s) =
          (if rt = NO_ERROR then w else mLastRequestWidth s)
      \<and> mLastRequestHeight (captureNV21 en im w h st s) =
          (if rt = NO_ERROR then h else mLastRequestHeight s)
      \<and> mState (captureNV21 en im w h st s) =
          (if w = mLastRequestWidth s \<and> h = mLastRequestHeight s then mState s
           else if rt = NO_ERROR then ECDS_STARTED
           else if \<not> (mLastRequestWidth s = - 1 \<and> mLastRequestHeight s = - 1)
                   \<and> rs = NO_ERROR
           then ECDS_CONNECTED else mState s))
   \<and> (\<exists>rs rt rf.
      upstream (since s (captureRGBA en im w h st s)) =
        (if w = mLastRequestWidth s \<and> h = mLastRequestHeight s
         then [QueryFrame None im 0 (unat (w * h * 4)) 1 1 1 1 rf]
         else (if mLastRequestWidth s = - 1 \<and> mLastRequestHeight s = - 1 then []
               else [QueryStop rs])
              @ [QueryStart V4L2_PIX_FMT_NV21 w h rt]
              @ (if rt = NO_ERROR
                 then [QueryFrame None im 0 (unat (w * h * 4)) 1 1 1 1 rf]
                 else []))
      \<and> mLastRequestWidth (captureRGBA en im w h st s) =
          (if rt = NO_ERROR then w else mLastRequestWidth s)
      \<and> mLastRequestHeight (captureRGBA en im w h st s) =
          (if rt = NO_ERROR then h else mLastRequestHeight s)
      \<and> mState (captureRGBA en im w h st s) =
          (if w = mLastRequestWidth s \<and> h = mLastRequestHeight s then mState s
           else if rt = NO_ERROR then ECDS_STARTED
           else if \<not> (mLastRequestWidth s = - 1 \<and> mLastRequestHeight s = - 1)
                   \<and> rs = NO_ERROR
           then ECDS_CONNECTED else mState s))
   \<and> mLastRequestWidth (QemuSensor raw) = - 1
   \<and> mLastRequestHeight (QemuSensor raw) = - 1"
  by (intro conjI)
     (rule captureNV21_calls, rule captureRGBA_calls, simp_all add: QemuSensor_def)

lemmas capture_eval =
  captureNV21_def captureRGBA_def clientQueryStop_def clientQueryStart_def
  clientQueryFrame_def deliver_def emit_def QemuSensor_def zeroed_def calm_def startFails_def
  started_def Let_def since_def NO_ERROR_def V4L2_PIX_FMT_NV21_def kFrameDurationRange_def

text \<open>
  Four runs of C1: the first request (start, fetch), a change of size (stop, start,
  fetch), the same size again (fetch only), and a change of size whose start fails
  (stop, start; the latch stays at 640 by 480 and no frame is fetched).
\<close>

theorem resolution_latch_witness:
  "upstream (since (QemuSensor zeroed) started) =
     [QueryStart V4L2_PIX_FMT_NV21 640 480 0, QueryFrame (Some 0) None 460800 0 1 1 1 1 0]
   \<and> mLastRequestWidth started = 640 \<and> mLastRequestHeight started = 480
   \<and> mState started = ECDS_STARTED
   \<and> upstream (since started (captureNV21 calm (Some 0) 1280 720 1280 started)) =
     [QueryStop 0, QueryStart V4L2_PIX_FMT_NV21 1280 720 0,
      QueryFrame (Some 0) None 1382400 0 1 1 1 1 0]
   \<and> upstream (since started (captureRGBA calm (Some 0) 640 480 640 started)) =
     [QueryFrame None (Some 0) 0 1228800 1 1 1 1 0]
   \<and> upstream (since started (captureRGBA startFails (Some 0) 320 240 320 started)) =
     [QueryStop 0, QueryStart V4L2_PIX_FMT_NV21 320 240 (- 1)]
   \<and> mLastRequestWidth (captureRGBA startFails (Some 0) 320 240 320 started) = 640
   \<and> mLastRequestHeight (captureRGBA startFails (Some 0) 320 240 320 started) = 480
   \<and> mState (captureRGBA startFails (Some 0) 320 240 320 started) = ECDS_CONNECTED"
proof -
  have runs:
    "upstream (since (QemuSensor zeroed) started) =
       [QueryStart V4L2_PIX_FMT_NV21 640 480 0, QueryFrame (Some 0) None 460800 0 1 1 1 1 0]
     \<and> mLastRequestWidth started = 640 \<and> mLastRequestHeight started = 480
     \<and> mState started = ECDS_STARTED
     \<and> upstream (since started (captureNV21 calm (Some 0) 1280 720 1280 started)) =
       [QueryStop 0, QueryStart V4L2_PIX_FMT_NV21 1280 720 0,
        QueryFrame (Some 0) None 1382400 0 1 1 1 1 0]
     \<and> upstream (since started (captureRGBA calm (Some 0) 640 480 640 started)) =
       [QueryFrame None (Some 0) 0 1228800 1 1 1 1 0]
     \<and> upstream (since started (captureRGBA startFails (Some 0) 320 240 320 started)) =
       [QueryStop 0, QueryStart V4L2_PIX_FMT_NV21 320 240 (- 1)]
     \<and> mLastRequestWidth (captureRGBA startFails (Some 0) 320 240 320 started) = 640
     \<and> mLastRequestHeight (captureRGBA startFails (Some 0) 320 240 320 started) = 480
     \<and> mState (captureRGBA startFails (Some 0) 320 240 320 started) = ECDS_CONNECTED"
    by (simp add: capture_eval)
  show ?thesis
    by (rule conjunct2
          [OF conjI [OF resolution_latch [of started startFails "Some 0" 320 240 320 zeroed] runs]])
qed

subsection \<open>What a capture leaves alone\<close>

lemma grows_refl [simp]: "grows s s"
  by (simp add: grows_def)

lemma grows_trans: "grows a b \<Longrightarrow> grows b c \<Longrightarrow> grows a c"
  unfolding grows_def
proof (elim exE conjE)
  fix e1 e2
  assume "trace b = trace a @ e1" "list_all isCapture e1"
    "trace c = trace b @ e2" "list_all isCapture e2"
  then have "trace c = trace a @ (e1 @ e2) \<and> list_all isCapture (e1 @ e2)" by simp
  then show "\<exists>evs. trace c = trace a @ evs \<and> list_all isCapture evs" by blast
qed

lemma grows_trace: "trace s' = trace s @ evs \<Longrightarrow> list_all isCapture evs \<Longrightarrow> grows s s'"
  unfolding grows_def by blast

lemma grows_stopIfStarted: "grows s (stopIfStarted en s)"
  by (rule grows_trace [OF stopIfStarted_fields(1)]) simp

lemma grows_startCamera: "grows s (snd (startCamera en w h s))"
  by (rule grows_trace [OF startCamera_fields(2)]) simp

lemma grows_restartCamera: "grows s (snd (restartCamera en w h s))"
  unfolding restartCamera_def
  by (rule grows_trans [OF _ grows_trans [OF grows_stopIfStarted grows_startCamera]])
     (rule grows_trace [OF emit_fields(1)], simp)

lemma grows_fetchNV21: "grows s (fetchNV21 en im w h st s)"
  by (rule grows_trace [OF fetchNV21_fields(1)]) simp

lemma grows_fetchRGBA: "grows s (fetchRGBA en im w h st s)"
  by (rule grows_trace [OF fetchRGBA_fields(1)]) simp

lemma grows_captureNV21: "grows s (captureNV21 en im w h st s)"
  unfolding captureNV21_restart
  using grows_fetchNV21 grows_restartCamera grows_trans [OF grows_restartCamera grows_fetchNV21]
  by (simp split: if_splits)

lemma grows_captureRGBA: "grows s (captureRGBA en im w h st s)"
  unfolding captureRGBA_restart
  using grows_fetchRGBA grows_restartCamera grows_trans [OF grows_restartCamera grows_fetchRGBA]
  by (simp split: if_splits)

lemma captureNV21_frame:
  "slots (captureNV21 en im w h st s) = slots s"
  unfolding captureNV21_restart
  by (simp add: restartCamera_frame fetchNV21_fields)

lemma captureRGBA_frame:
  "slots (captureRGBA en im w h st s) = slots s"
  unfolding captureRGBA_restart
  by (simp add: restartCamera_frame fetchRGBA_fields)

lemma dispatch_frame: "slots (dispatch en p b s) = slots s"
proof -
  have "slots (s\<lparr>heap := hp, vectors := v\<rparr>) = slots s" for hp v
    by (simp add: slots_def)
  then show ?thesis
    by (simp add: dispatch_def captureRGB_def captureNV21_frame captureRGBA_frame Let_def)
qed

lemma grows_dispatch: "grows s (dispatch en p b s)"
proof -
  have "grows s (s\<lparr>heap := hp, vectors := v\<rparr>)" for hp v
    by (rule grows_trace [of _ _ "[]"]) simp_all
  moreover have "grows s (emit (Log m) s)" for m
    by (rule grows_trace [OF emit_fields(1)]) simp
  ultimately show ?thesis
    by (simp add: dispatch_def captureRGB_def grows_captureNV21 grows_captureRGBA Let_def)
qed

lemma captureLoop_step:
  "i < length (vectors s p) \<Longrightarrow>
   captureLoop en p i s = captureLoop en p (Suc i) (dispatch en p (vectors s p ! i) s)"
  by (subst captureLoop.simps) simp

lemma captureLoop_stop:
  "\<not> i < length (vectors s p) \<Longrightarrow> captureLoop en p i s = s"
  by (subst captureLoop.simps) simp

lemma captureLoop_frame: "slots (captureLoop en p i s) = slots s"
proof (induction en p i s rule: captureLoop.induct)
  case (1 en p i s)
  show ?case
  proof (cases "i < length (vectors s p)")
    case True
    with 1 show ?thesis by (simp add: captureLoop_step dispatch_frame)
  next
    case False
    then show ?thesis by (simp add: captureLoop_stop)
  qed
qed

lemma grows_captureLoop: "grows s (captureLoop en p i s)"
proof (induction en p i s rule: captureLoop.induct)
  case (1 en p i s)
  show ?case
  proof (cases "i < length (vectors s p)")
    case True
    from grows_trans [OF grows_dispatch 1 [OF True]] True
    show ?thesis by (simp add: captureLoop_step)
  next
    case False
    then show ?thesis by (simp add: captureLoop_stop)
  qed
qed

lemma aux_not_jpeg:
  "\<not> isJpeg \<lparr>streamId = 0, width = w, height = h,
             format = HAL_PIXEL_FORMAT_YCbCr_420_888, dataSpace = d,
             stride = w, buffer = None, img = a\<rparr>"
  by (simp add: isJpeg_def HAL_PIXEL_FORMAT_BLOB_def HAL_PIXEL_FORMAT_YCbCr_420_888_def)

lemma captureLoop_count:
  "length (vectors (captureLoop en p i s) p) =
     length (vectors s p) + length (filter isJpeg (drop i (vectors s p)))"
proof (induction en p i s rule: captureLoop.induct)
  case (1 en p i s)
  show ?case
  proof (cases "i < length (vectors s p)")
    case True
    have split: "drop i (vectors s p) = (vectors s p ! i) # drop (Suc i) (vectors s p)"
      using True by (simp add: Cons_nth_drop_Suc)
    show ?thesis
      unfolding captureLoop_step [OF True] 1 [OF True] dispatch_vectors split
      using True by (simp add: aux_not_jpeg)
  next
    case False
    then show ?thesis by (simp add: captureLoop_stop)
  qed
qed

lemma dispatch_jpeg:
  assumes "format b = HAL_PIXEL_FORMAT_BLOB" and "dataSpace b \<noteq> HAL_DATASPACE_DEPTH"
  shows "dispatch en p b s =
    s\<lparr>heap := heap s @ [\<lparr>rsize = unat (width b * height b * 3),
                         rdata = uninitialised en (trace s)\<rparr>],
       vectors := (vectors s)(p := vectors s p @
         [\<lparr>streamId = 0, width = width b, height = height b,
           format = HAL_PIXEL_FORMAT_YCbCr_420_888,
           dataSpace = indeterminate en (trace s),
           stride = width b, buffer = None, img = Some (length (heap s))\<rparr>])\<rparr>"
  using assms
  by (simp add: dispatch_def Let_def HAL_PIXEL_FORMAT_BLOB_def HAL_PIXEL_FORMAT_RGB_888_def
      HAL_PIXEL_FORMAT_RGBA_8888_def)

lemmas fmt_defs =
  HAL_PIXEL_FORMAT_BLOB_def HAL_PIXEL_FORMAT_RGB_888_def HAL_PIXEL_FORMAT_RGBA_8888_def
  HAL_PIXEL_FORMAT_YCbCr_420_888_def HAL_DATASPACE_DEPTH_def

lemmas loop_eval =
  capture_eval captureLoop.simps capture_def dispatch_def captureRGB_def fmt_defs
  jpeg_def depthBuffer_def yuvBuffer_def rgbBuffer_def oddBuffer_def requestOf_def
  jpegRequest_def mixedRequest_def listened_def

subsection \<open>The auxiliary buffer of a BLOB request\<close>

text \<open>
  C2. Dispatching a buffer \<open>b\<close> of format BLOB whose data space is not DEPTH appends
  exactly one buffer to the same vector: stream id 0, the width and height of \<open>b\<close>,
  format YCbCr_420_888, stride equal to the width, a null buffer handle, and as image a
  region that is new (its address is the first one beyond the heap as it was, so it is
  not null and no earlier pointer holds it) and has \<open>width * height * 3\<close> bytes. The
  product is the code's, in \<^verbatim>\<open>uint32_t\<close>; it is the product of the numbers whenever
  that is below \<open>2^32\<close>. Over a whole request the loop appends one buffer for each
  such BLOB buffer.
\<close>

theorem blob_auxiliary_buffer:
  assumes "format b = HAL_PIXEL_FORMAT_BLOB" and "dataSpace b \<noteq> HAL_DATASPACE_DEPTH"
  shows "(\<exists>aux fresh.
      vectors (dispatch en p b s) = (vectors s)(p := vectors s p @ [aux])
    \<and> streamId aux = 0 \<and> width aux = width b \<and> height aux = height b
    \<and> format aux = HAL_PIXEL_FORMAT_YCbCr_420_888 \<and> stride aux = width b
    \<and> buffer aux = None
    \<and> img aux = Some (length (heap s))
    \<and> heap (dispatch en p b s) = heap s @ [fresh]
    \<and> rsize fresh = unat (width b * height b * 3)
    \<and> (unat (width b) * unat (height b) * 3 < 2 ^ 32
        \<longrightarrow> rsize fresh = unat (width b) * unat (height b) * 3))
   \<and> length (vectors (captureLoop en p 0 s) p) =
       length (vectors s p) + length (filter isJpeg (vectors s p))"
proof -
  have small: "unat (width b * height b * 3) = unat (width b) * unat (height b) * 3"
    if "unat (width b) * unat (height b) * 3 < 2 ^ 32"
  proof -
    have "unat (width b * height b * 3) = (unat (width b) * unat (height b) * 3) mod 2 ^ 32"
      by (simp add: unat_word_ariths mod_mult_left_eq)
    with that show ?thesis by simp
  qed
  have "length (vectors (captureLoop en p 0 s) p) =
       length (vectors s p) + length (filter isJpeg (vectors s p))"
    using captureLoop_count [of en p 0 s] by simp
  then show ?thesis
    unfolding dispatch_jpeg [OF assms]
    apply (intro conjI)
     apply (rule exI [of _ "\<lparr>streamId = 0, width = width b, height = height b,
           format = HAL_PIXEL_FORMAT_YCbCr_420_888,
           dataSpace = indeterminate en (trace s),
           stride = width b, buffer = None, img = Some (length (heap s))\<rparr>"])
     apply (rule exI [of _ "\<lparr>rsize = unat (width b * height b * 3),
                         rdata = uninitialised en (trace s)\<rparr>"])
    using small apply simp
    apply assumption
    done
qed

text \<open>C2 on the request of one JPEG buffer of 1920 by 1080 pixels: 6220800 bytes.\<close>

theorem blob_auxiliary_buffer_witness:
  "format jpeg = HAL_PIXEL_FORMAT_BLOB \<and> dataSpace jpeg \<noteq> HAL_DATASPACE_DEPTH
   \<and> vectors (dispatch calm 0 jpeg jpegRequest) 0 =
       [jpeg, \<lparr>streamId = 0, width = 1920, height = 1080,
               format = HAL_PIXEL_FORMAT_YCbCr_420_888, dataSpace = 0,
               stride = 1920, buffer = None, img = Some 1\<rparr>]
   \<and> length (heap jpegRequest) = 1
   \<and> rsize (heap (dispatch calm 0 jpeg jpegRequest) ! 1) = 6220800
   \<and> length (vectors (captureLoop calm 0 0 jpegRequest) 0) = 2"
proof -
  have f: "format jpeg = HAL_PIXEL_FORMAT_BLOB"
    by (simp add: jpeg_def)
  have d: "dataSpace jpeg \<noteq> HAL_DATASPACE_DEPTH"
    by (simp add: jpeg_def HAL_DATASPACE_DEPTH_def)
  have run:
    "vectors (dispatch calm 0 jpeg jpegRequest) 0 =
       [jpeg, \<lparr>streamId = 0, width = 1920, height = 1080,
               format = HAL_PIXEL_FORMAT_YCbCr_420_888, dataSpace = 0,
               stride = 1920, buffer = None, img = Some 1\<rparr>]
     \<and> length (heap jpegRequest) = 1
     \<and> rsize (heap (dispatch calm 0 jpeg jpegRequest) ! 1) = 6220800
     \<and> length (vectors (captureLoop calm 0 0 jpegRequest) 0) = 2"
    by (simp add: loop_eval)
  from f d run have all: "format jpeg = HAL_PIXEL_FORMAT_BLOB \<and> dataSpace jpeg \<noteq> HAL_DATASPACE_DEPTH
   \<and> vectors (dispatch calm 0 jpeg jpegRequest) 0 =
       [jpeg, \<lparr>streamId = 0, width = 1920, height = 1080,
               format = HAL_PIXEL_FORMAT_YCbCr_420_888, dataSpace = 0,
               stride = 1920, buffer = None, img = Some 1\<rparr>]
   \<and> length (heap jpegRequest) = 1
   \<and> rsize (heap (dispatch calm 0 jpeg jpegRequest) ! 1) = 6220800
   \<and> length (vectors (captureLoop calm 0 0 jpegRequest) 0) = 2"
    by (intro conjI) simp_all
  show ?thesis
    by (rule conjunct2
          [OF conjI [OF blob_auxiliary_buffer [OF f d, of calm 0 jpegRequest] all]])
qed

subsection \<open>Buffers that are skipped\<close>

lemma dispatch_RGB_888:
  "format b = HAL_PIXEL_FORMAT_RGB_888 \<Longrightarrow> dispatch en p b s = emit (Log NotImplemented) s"
  by (simp add: dispatch_def captureRGB_def)

lemma dispatch_depth:
  "format b = HAL_PIXEL_FORMAT_BLOB \<Longrightarrow> dataSpace b = HAL_DATASPACE_DEPTH \<Longrightarrow>
   dispatch en p b s = emit (Log DepthUnsupported) s"
  by (simp add: dispatch_def HAL_PIXEL_FORMAT_BLOB_def HAL_PIXEL_FORMAT_RGB_888_def
      HAL_PIXEL_FORMAT_RGBA_8888_def)

lemma dispatch_unknown:
  "format b \<noteq> HAL_PIXEL_FORMAT_RGB_888 \<Longrightarrow> format b \<noteq> HAL_PIXEL_FORMAT_RGBA_8888 \<Longrightarrow>
   format b \<noteq> HAL_PIXEL_FORMAT_BLOB \<Longrightarrow> format b \<noteq> HAL_PIXEL_FORMAT_YCbCr_420_888 \<Longrightarrow>
   dispatch en p b s = emit (Log (UnknownFormat (format b))) s"
  by (simp add: dispatch_def)

lemma dispatch_skip:
  assumes "format b = HAL_PIXEL_FORMAT_RGB_888
     \<or> (format b = HAL_PIXEL_FORMAT_BLOB \<and> dataSpace b = HAL_DATASPACE_DEPTH)
     \<or> (format b \<noteq> HAL_PIXEL_FORMAT_RGB_888 \<and> format b \<noteq> HAL_PIXEL_FORMAT_RGBA_8888
         \<and> format b \<noteq> HAL_PIXEL_FORMAT_BLOB \<and> format b \<noteq> HAL_PIXEL_FORMAT_YCbCr_420_888)"
  shows "\<exists>m. dispatch en p b s = emit (Log m) s"
  using assms dispatch_RGB_888 [of b en p s] dispatch_depth [of b en p s]
    dispatch_unknown [of b en p s]
  by blast

lemma capture_exposure:
  assumes "nextBuffers c = Some p" and "listener c = Some l"
  shows "\<exists>evs. trace (capture en c t s) = trace s @ ExposureStart l (frameNumber c) t # evs
               \<and> list_all isCapture evs"
proof -
  let ?s3 = "emit (ExposureStart l (frameNumber c) t)
               (s\<lparr>mNextCaptureTime := t, mNextCapturedBuffers := Some p\<rparr>)"
  have c: "capture en c t s = captureLoop en p 0 ?s3"
    using assms by (simp add: capture_def Let_def)
  from grows_captureLoop [of ?s3 en p 0] obtain evs where
    "trace (captureLoop en p 0 ?s3) = trace ?s3 @ evs" "list_all isCapture evs"
    unfolding grows_def by blast
  then show ?thesis unfolding c by simp
qed

lemma isCapture_not_exposure: "list_all isCapture evs \<Longrightarrow> filter isExposure evs = []"
proof (induction evs)
  case Nil
  then show ?case by simp
next
  case (Cons e evs)
  then show ?case by (cases e) simp_all
qed

lemma capture_unlistened:
  assumes "listener c = None"
  shows "filter isExposure (since s (capture en c t s)) = []"
proof (cases "nextBuffers c")
  case None
  then show ?thesis by (simp add: capture_def Let_def since_def)
next
  case (Some p)
  let ?s2 = "s\<lparr>mNextCaptureTime := t, mNextCapturedBuffers := Some p\<rparr>"
  have c: "capture en c t s = captureLoop en p 0 ?s2"
    using assms Some by (simp add: capture_def Let_def)
  from grows_captureLoop [of ?s2 en p 0] obtain evs where
    evs: "trace (captureLoop en p 0 ?s2) = trace s @ evs" "list_all isCapture evs"
    unfolding grows_def by auto
  show ?thesis
    unfolding c since_append [OF evs(1)] by (rule isCapture_not_exposure [OF evs(2)])
qed

text \<open>
  C8. Dispatching a buffer \<open>b\<close> whose format is RGB_888, or BLOB with data space DEPTH,
  or none of the four known formats, appends one log message and does nothing else: no
  frame is fetched, the heap (so the image bytes of \<open>b\<close>) and the vectors (so no
  auxiliary buffer) are as before, and the loop goes on to the next index. Such a buffer
  does not suppress the EXPOSURE_START notification: when the request's vector is not
  null and a listener is registered, the iteration's capture starts with the
  notification, whatever the vector holds. Whether there is a notification to send
  depends on the listener alone (\<^verbatim>\<open>listener != nullptr\<close>, line 269), never on the
  buffers: without a listener no request sends one.
\<close>

theorem misconfigured_buffer_skipped:
  assumes "format b = HAL_PIXEL_FORMAT_RGB_888
     \<or> (format b = HAL_PIXEL_FORMAT_BLOB \<and> dataSpace b = HAL_DATASPACE_DEPTH)
     \<or> (format b \<noteq> HAL_PIXEL_FORMAT_RGB_888 \<and> format b \<noteq> HAL_PIXEL_FORMAT_RGBA_8888
         \<and> format b \<noteq> HAL_PIXEL_FORMAT_BLOB \<and> format b \<noteq> HAL_PIXEL_FORMAT_YCbCr_420_888)"
  shows "(\<exists>m. dispatch en p b s = emit (Log m) s
            \<and> since s (dispatch en p b s) = [Log m]
            \<and> (i < length (vectors s p) \<and> vectors s p ! i = b
                \<longrightarrow> captureLoop en p i s = captureLoop en p (Suc i) (emit (Log m) s)))
       \<and> filter isFetch (since s (dispatch en p b s)) = []
       \<and> heap (dispatch en p b s) = heap s
       \<and> vectors (dispatch en p b s) = vectors s
       \<and> (b \<in> set (vectors s p) \<and> nextBuffers c = Some p \<and> listener c = Some l
           \<longrightarrow> (\<exists>evs. trace (capture en c t s) =
                        trace s @ ExposureStart l (frameNumber c) t # evs))
       \<and> (listener c = None \<longrightarrow> filter isExposure (since s (capture en c t s)) = [])"
proof -
  from dispatch_skip [OF assms, of en p s] obtain m where
    d: "dispatch en p b s = emit (Log m) s" by blast
  have 1: "since s (dispatch en p b s) = [Log m]"
    unfolding d by simp
  have 2: "captureLoop en p i s = captureLoop en p (Suc i) (emit (Log m) s)"
    if "i < length (vectors s p)" "vectors s p ! i = b"
    using that d by (simp add: captureLoop_step)
  have 3: "filter isFetch (since s (dispatch en p b s)) = []"
    unfolding 1 by simp
  have 4: "heap (dispatch en p b s) = heap s" "vectors (dispatch en p b s) = vectors s"
    unfolding d by simp_all
  have 5: "\<exists>evs. trace (capture en c t s) = trace s @ ExposureStart l (frameNumber c) t # evs"
    if "nextBuffers c = Some p" "listener c = Some l"
    using capture_exposure [OF that, of en t s] by blast
  from d 1 2 have 6: "\<exists>m. dispatch en p b s = emit (Log m) s
            \<and> since s (dispatch en p b s) = [Log m]
            \<and> (i < length (vectors s p) \<and> vectors s p ! i = b
                \<longrightarrow> captureLoop en p i s = captureLoop en p (Suc i) (emit (Log m) s))"
    by (intro exI [of _ m]) simp
  have 7: "b \<in> set (vectors s p) \<and> nextBuffers c = Some p \<and> listener c = Some l
           \<longrightarrow> (\<exists>evs. trace (capture en c t s) =
                        trace s @ ExposureStart l (frameNumber c) t # evs)"
    using 5 by simp
  have 8: "listener c = None \<longrightarrow> filter isExposure (since s (capture en c t s)) = []"
    using capture_unlistened [of c s en t] by simp
  show ?thesis
    by (intro conjI) (rule 6, rule 3, rule 4, rule 4, rule 7, rule 8)
qed

text \<open>
  C8 on a request of a depth BLOB, a YCbCr_420_888 buffer, an RGB_888 buffer and a
  buffer of format 99, with a listener: the notification, then one log message for each
  skipped buffer around the capture of the second.
\<close>

theorem misconfigured_buffer_skipped_witness:
  "format depthBuffer = HAL_PIXEL_FORMAT_BLOB \<and> dataSpace depthBuffer = HAL_DATASPACE_DEPTH
   \<and> depthBuffer \<in> set (vectors mixedRequest 0)
   \<and> nextBuffers listened = Some 0 \<and> listener listened = Some 5
   \<and> trace (capture calm listened 1000 mixedRequest) =
       [ExposureStart 5 1 1000, Log DepthUnsupported,
        Log (RestartingCamera 640 480 (- 1) (- 1)),
        QueryStart V4L2_PIX_FMT_NV21 640 480 0,
        QueryFrame (Some 0) None 460800 0 1 1 1 1 0,
        Log NotImplemented, Log (UnknownFormat 99)]"
proof -
  have bad: "format depthBuffer = HAL_PIXEL_FORMAT_RGB_888
     \<or> (format depthBuffer = HAL_PIXEL_FORMAT_BLOB \<and> dataSpace depthBuffer = HAL_DATASPACE_DEPTH)
     \<or> (format depthBuffer \<noteq> HAL_PIXEL_FORMAT_RGB_888
         \<and> format depthBuffer \<noteq> HAL_PIXEL_FORMAT_RGBA_8888
         \<and> format depthBuffer \<noteq> HAL_PIXEL_FORMAT_BLOB
         \<and> format depthBuffer \<noteq> HAL_PIXEL_FORMAT_YCbCr_420_888)"
    by (simp add: depthBuffer_def)
  have run:
    "format depthBuffer = HAL_PIXEL_FORMAT_BLOB \<and> dataSpace depthBuffer = HAL_DATASPACE_DEPTH
     \<and> depthBuffer \<in> set (vectors mixedRequest 0)
     \<and> nextBuffers listened = Some 0 \<and> listener listened = Some 5
     \<and> trace (capture calm listened 1000 mixedRequest) =
         [ExposureStart 5 1 1000, Log DepthUnsupported,
          Log (RestartingCamera 640 480 (- 1) (- 1)),
          QueryStart V4L2_PIX_FMT_NV21 640 480 0,
          QueryFrame (Some 0) None 460800 0 1 1 1 1 0,
          Log NotImplemented, Log (UnknownFormat 99)]"
    by (simp add: loop_eval)
  show ?thesis
    by (rule conjunct2
          [OF conjI [OF misconfigured_buffer_skipped
                          [OF bad, of calm 0 mixedRequest 0 listened 5 1000] run]])
qed

subsection \<open>The auxiliary buffer is captured in the same iteration\<close>

text \<open>
  C9, as the code has it. The loop reads the size of the vector at every step. On a
  request of a single BLOB buffer \<open>b\<close> that is not a depth cloud, the loop is the
  dispatch of \<open>b\<close>, which appends the auxiliary buffer, followed by \<^verbatim>\<open>captureNV21\<close> on
  the auxiliary buffer's new region with the width and height of \<open>b\<close>. The upstream
  calls of the iteration are those of that \<^verbatim>\<open>captureNV21\<close>: the restart of the
  resolution latch when the size differs from the latch, and the fetch on the YUV path
  into the new region, of \<open>width * height * 12 / 8\<close> bytes (in \<^verbatim>\<open>uint32_t\<close>), unless the
  start of that restart fails; then \<^verbatim>\<open>captureNV21\<close> returns without fetching.
\<close>

theorem auxiliary_buffer_captured:
  assumes "vectors s p = [b]" and "format b = HAL_PIXEL_FORMAT_BLOB"
    and "dataSpace b \<noteq> HAL_DATASPACE_DEPTH"
  shows "captureLoop en p 0 s =
           captureNV21 en (Some (length (heap s))) (width b) (height b) (width b)
             (dispatch en p b s)
     \<and> (\<exists>aux fresh. vectors (captureLoop en p 0 s) p = [b, aux]
           \<and> format aux = HAL_PIXEL_FORMAT_YCbCr_420_888
           \<and> img aux = Some (length (heap s))
           \<and> heap (dispatch en p b s) = heap s @ [fresh]
           \<and> rsize fresh = unat (width b * height b * 3))
     \<and> (\<exists>rs rt rf.
          upstream (since s (captureLoop en p 0 s)) =
            (if width b = mLastRequestWidth s \<and> height b = mLastRequestHeight s
             then [QueryFrame (Some (length (heap s))) None
                     (unat ((width b * height b * 12) div 8)) 0 1 1 1 1 rf]
             else (if mLastRequestWidth s = - 1 \<and> mLastRequestHeight s = - 1 then []
                   else [QueryStop rs])
                  @ [QueryStart V4L2_PIX_FMT_NV21 (width b) (height b) rt]
                  @ (if rt = NO_ERROR
                     then [QueryFrame (Some (length (heap s))) None
                             (unat ((width b * height b * 12) div 8)) 0 1 1 1 1 rf]
                     else [])))"
proof -
  let ?aux = "\<lparr>streamId = 0, width = width b, height = height b,
           format = HAL_PIXEL_FORMAT_YCbCr_420_888,
           dataSpace = indeterminate en (trace s),
           stride = width b, buffer = None, img = Some (length (heap s))\<rparr>"
  let ?fresh = "\<lparr>rsize = unat (width b * height b * 3), rdata = uninitialised en (trace s)\<rparr>"
  let ?s1 = "dispatch en p b s"
  let ?s2 = "captureNV21 en (Some (length (heap s))) (width b) (height b) (width b) ?s1"
  have s1: "?s1 = s\<lparr>heap := heap s @ [?fresh],
                     vectors := (vectors s)(p := vectors s p @ [?aux])\<rparr>"
    by (rule dispatch_jpeg [OF assms(2,3)])
  have v1: "vectors ?s1 p = [b, ?aux]"
    unfolding s1 using assms(1) by simp
  have d2: "dispatch en p ?aux ?s1 = ?s2"
    by (simp add: dispatch_def HAL_PIXEL_FORMAT_BLOB_def HAL_PIXEL_FORMAT_RGB_888_def
        HAL_PIXEL_FORMAT_RGBA_8888_def HAL_PIXEL_FORMAT_YCbCr_420_888_def)
  have v2: "vectors ?s2 p = [b, ?aux]"
    using v1 by simp
  have "captureLoop en p 0 s = captureLoop en p (Suc 0) ?s1"
    using assms(1) by (simp add: captureLoop_step)
  also have "\<dots> = captureLoop en p (Suc (Suc 0)) (dispatch en p ?aux ?s1)"
    using v1 by (simp add: captureLoop_step)
  also have "\<dots> = ?s2"
    unfolding d2 using v2 by (simp add: captureLoop_stop)
  finally have loop: "captureLoop en p 0 s = ?s2" .
  have same: "trace ?s1 = trace s" "mLastRequestWidth ?s1 = mLastRequestWidth s"
    "mLastRequestHeight ?s1 = mLastRequestHeight s" "heap ?s1 = heap s @ [?fresh]"
    unfolding s1 by simp_all
  have since: "since s ?s2 = since ?s1 ?s2"
    by (simp add: since_def same)
  have calls: "\<exists>rs rt rf.
          upstream (since s (captureLoop en p 0 s)) =
            (if width b = mLastRequestWidth s \<and> height b = mLastRequestHeight s
             then [QueryFrame (Some (length (heap s))) None
                     (unat ((width b * height b * 12) div 8)) 0 1 1 1 1 rf]
             else (if mLastRequestWidth s = - 1 \<and> mLastRequestHeight s = - 1 then []
                   else [QueryStop rs])
                  @ [QueryStart V4L2_PIX_FMT_NV21 (width b) (height b) rt]
                  @ (if rt = NO_ERROR
                     then [QueryFrame (Some (length (heap s))) None
                             (unat ((width b * height b * 12) div 8)) 0 1 1 1 1 rf]
                     else []))"
  proof -
    from captureNV21_calls [of ?s1 en "Some (length (heap s))" "width b" "height b" "width b"]
    obtain rs rt rf where c:
      "upstream (since ?s1 ?s2) =
        (if width b = mLastRequestWidth ?s1 \<and> height b = mLastRequestHeight ?s1
         then [QueryFrame (Some (length (heap s))) None
                 (unat ((width b * height b * 12) div 8)) 0 1 1 1 1 rf]
         else (if mLastRequestWidth ?s1 = - 1 \<and> mLastRequestHeight ?s1 = - 1 then []
               else [QueryStop rs])
              @ [QueryStart V4L2_PIX_FMT_NV21 (width b) (height b) rt]
              @ (if rt = NO_ERROR
                 then [QueryFrame (Some (length (heap s))) None
                         (unat ((width b * height b * 12) div 8)) 0 1 1 1 1 rf]
                 else []))"
      by (elim exE conjE)
    show ?thesis
      apply (rule exI [of _ rs])
      apply (rule exI [of _ rt])
      apply (rule exI [of _ rf])
      unfolding loop since c same apply (rule refl)
      done
  qed
  have aux: "\<exists>aux fresh. vectors (captureLoop en p 0 s) p = [b, aux]
           \<and> format aux = HAL_PIXEL_FORMAT_YCbCr_420_888
           \<and> img aux = Some (length (heap s))
           \<and> heap (dispatch en p b s) = heap s @ [fresh]
           \<and> rsize fresh = unat (width b * height b * 3)"
    apply (rule exI [of _ ?aux])
    apply (rule exI [of _ ?fresh])
    unfolding loop v2 same apply simp
    done
  show ?thesis
    by (intro conjI) (rule loop, rule aux, rule calls)
qed

text \<open>C9 on the request of one JPEG buffer of 1920 by 1080 pixels, the upstream
  succeeding: the start, then the fetch of 3110400 bytes into the new region.\<close>

theorem auxiliary_buffer_captured_witness:
  "vectors jpegRequest 0 = [jpeg]
   \<and> format jpeg = HAL_PIXEL_FORMAT_BLOB \<and> dataSpace jpeg \<noteq> HAL_DATASPACE_DEPTH
   \<and> upstream (since jpegRequest (captureLoop calm 0 0 jpegRequest)) =
       [QueryStart V4L2_PIX_FMT_NV21 1920 1080 0,
        QueryFrame (Some 1) None 3110400 0 1 1 1 1 0]"
proof -
  have v: "vectors jpegRequest 0 = [jpeg]"
    by (simp add: jpegRequest_def requestOf_def)
  have f: "format jpeg = HAL_PIXEL_FORMAT_BLOB"
    by (simp add: jpeg_def)
  have d: "dataSpace jpeg \<noteq> HAL_DATASPACE_DEPTH"
    by (simp add: jpeg_def HAL_DATASPACE_DEPTH_def)
  have run: "upstream (since jpegRequest (captureLoop calm 0 0 jpegRequest)) =
       [QueryStart V4L2_PIX_FMT_NV21 1920 1080 0,
        QueryFrame (Some 1) None 3110400 0 1 1 1 1 0]"
    by (simp add: loop_eval)
  from v f d run have all: "vectors jpegRequest 0 = [jpeg]
   \<and> format jpeg = HAL_PIXEL_FORMAT_BLOB \<and> dataSpace jpeg \<noteq> HAL_DATASPACE_DEPTH
   \<and> upstream (since jpegRequest (captureLoop calm 0 0 jpegRequest)) =
       [QueryStart V4L2_PIX_FMT_NV21 1920 1080 0,
        QueryFrame (Some 1) None 3110400 0 1 1 1 1 0]"
    by (intro conjI)
  show ?thesis
    by (rule conjunct2
          [OF conjI [OF auxiliary_buffer_captured [OF v f d, of calm] all]])
qed

text \<open>
  C9 as the claim states it fails: the same request when the upstream start fails. The
  auxiliary buffer is appended and \<^verbatim>\<open>captureNV21\<close> runs on it, and no frame is fetched.
\<close>

theorem start_failure_no_fetch:
  "vectors jpegRequest 0 = [jpeg]
   \<and> format jpeg = HAL_PIXEL_FORMAT_BLOB \<and> dataSpace jpeg \<noteq> HAL_DATASPACE_DEPTH
   \<and> length (vectors (captureLoop startFails 0 0 jpegRequest) 0) = 2
   \<and> upstream (since jpegRequest (captureLoop startFails 0 0 jpegRequest)) =
        [QueryStart V4L2_PIX_FMT_NV21 1920 1080 (- 1)]
   \<and> filter isFetch (since jpegRequest (captureLoop startFails 0 0 jpegRequest)) = []"
  by (simp add: loop_eval)

subsection \<open>The stages of an iteration\<close>

text \<open>
  \<open>threadLoop_Some\<close> describes an iteration that returns: the events it appends, in
  order, and the fields it leaves.
\<close>

lemma idles_refl [simp]: "idles s s"
  unfolding idles_def by (rule exI [of _ "[]"]) simp

lemma idles_emit: "isTiming e \<Longrightarrow> idles s (emit e s)"
  unfolding idles_def by (rule exI [of _ "[e]"]) (simp add: emit_def)

lemma idles_trans: "idles a b \<Longrightarrow> idles b c \<Longrightarrow> idles a c"
  unfolding idles_def
proof (elim exE conjE)
  fix e1 e2
  assume "b = a\<lparr>trace := trace a @ e1\<rparr>" "list_all isTiming e1"
    "c = b\<lparr>trace := trace b @ e2\<rparr>" "list_all isTiming e2"
  then have "c = a\<lparr>trace := trace a @ (e1 @ e2)\<rparr> \<and> list_all isTiming (e1 @ e2)" by simp
  then show "\<exists>evs. c = a\<lparr>trace := trace a @ evs\<rparr> \<and> list_all isTiming evs" by blast
qed

lemma nanosleepLoop_idles: "nanosleepLoop en t s = Some s' \<Longrightarrow> idles s s'"
proof (induction rule: nanosleepLoop.raw_induct [rotated 1, consumes 1])
  case (1 loop en t s s')
  obtain ret t' where n: "nanosleep en (trace s) t = (ret, t')"
    by (cases "nanosleep en (trace s) t")
  show ?case
  proof (cases "ret = 0")
    case True
    with 1(2) n have "s' = emit (Nanosleep t ret) s" by (simp add: Let_def)
    then show ?thesis by (simp add: idles_emit)
  next
    case False
    with 1(2) n have "loop en t' (emit (Nanosleep t ret) s) = Some s'" by (simp add: Let_def)
    from 1(1) [OF this] have "idles (emit (Nanosleep t ret) s) s'" .
    with idles_emit [of "Nanosleep t ret" s] show ?thesis
      by (auto intro: idles_trans)
  qed
qed

lemma readClock_idles: "idles s (snd (readClock en s))"
  by (simp add: readClock_def Let_def idles_emit)

lemma verticalBlank_idles:
  assumes "verticalBlank en st fe s = Some s'"
  shows "idles s s'"
proof -
  let ?s1 = "snd (readClock en s)"
  have "\<exists>s2. idles ?s1 s2 \<and> s' = snd (readClock en s2)"
  proof (cases "fst (readClock en s) <s fe - 2000000")
    case True
    with assms obtain s2 where
      "nanosleepLoop en (quot64 (fe - fst (readClock en s)) 1000000000,
                         rem64 (fe - fst (readClock en s)) 1000000000) ?s1 = Some s2"
      "s' = snd (readClock en s2)"
      by (auto simp: verticalBlank_def Let_def split_beta split: option.splits)
    then show ?thesis by (auto dest: nanosleepLoop_idles)
  next
    case False
    with assms have "s' = snd (readClock en ?s1)"
      by (simp add: verticalBlank_def Let_def split_beta)
    then show ?thesis by (intro exI [of _ ?s1]) simp
  qed
  then obtain s2 where s2: "idles ?s1 s2" and s': "s' = snd (readClock en s2)"
    by blast
  from idles_trans [OF idles_trans [OF readClock_idles s2] readClock_idles [of s2 en]] s'
  show ?thesis by simp
qed

lemma slots_kept: "slots a = slots b \<Longrightarrow> kept a = kept b"
  by (simp add: slots_def kept_def)

lemma slots_next:
  "slots a = slots b \<Longrightarrow>
   mNextCaptureTime a = mNextCaptureTime b \<and> mNextCapturedBuffers a = mNextCapturedBuffers b"
  by (simp add: slots_def)

lemma idles_fields:
  assumes "idles s s'"
  shows "slots s' = slots s" "\<exists>tim. trace s' = trace s @ tim \<and> list_all isTiming tim"
  using assms by (auto simp: idles_def slots_def)

lemma capture_fields:
  "kept (capture en c t s) = kept s"
  "mNextCaptureTime (capture en c t s) = t"
  "mNextCapturedBuffers (capture en c t s) = nextBuffers c"
  "\<exists>cap. trace (capture en c t s) =
           trace s
           @ (case nextBuffers c of None \<Rightarrow> []
              | Some p \<Rightarrow> (case listener c of None \<Rightarrow> []
                           | Some l \<Rightarrow> [ExposureStart l (frameNumber c) t]))
           @ cap
         \<and> list_all isCapture cap \<and> (nextBuffers c = None \<longrightarrow> cap = [])"
proof -
  let ?s2 = "s\<lparr>mNextCaptureTime := t, mNextCapturedBuffers := nextBuffers c\<rparr>"
  let ?s3 = "case listener c of None \<Rightarrow> ?s2
             | Some l \<Rightarrow> emit (ExposureStart l (frameNumber c) t) ?s2"
  have c: "capture en c t s =
             (case nextBuffers c of None \<Rightarrow> ?s2 | Some p \<Rightarrow> captureLoop en p 0 ?s3)"
    by (simp add: capture_def Let_def split: option.splits)
  have s3: "kept ?s3 = kept s" "mNextCaptureTime ?s3 = t"
    "mNextCapturedBuffers ?s3 = nextBuffers c"
    "trace ?s3 = trace s @ (case listener c of None \<Rightarrow> []
                           | Some l \<Rightarrow> [ExposureStart l (frameNumber c) t])"
    by (simp_all add: kept_def split: option.splits)
  show "kept (capture en c t s) = kept s"
    unfolding c using slots_kept [OF captureLoop_frame] s3(1)
    by (simp add: kept_def split: option.splits)
  show "mNextCaptureTime (capture en c t s) = t"
    unfolding c using slots_next [OF captureLoop_frame] s3(2)
    by (simp split: option.splits)
  show "mNextCapturedBuffers (capture en c t s) = nextBuffers c"
    unfolding c using slots_next [OF captureLoop_frame] s3(3)
    by (simp split: option.splits)
  show "\<exists>cap. trace (capture en c t s) =
           trace s
           @ (case nextBuffers c of None \<Rightarrow> []
              | Some p \<Rightarrow> (case listener c of None \<Rightarrow> []
                           | Some l \<Rightarrow> [ExposureStart l (frameNumber c) t]))
           @ cap
         \<and> list_all isCapture cap \<and> (nextBuffers c = None \<longrightarrow> cap = [])"
  proof (cases "nextBuffers c")
    case None
    then show ?thesis unfolding c by simp
  next
    case (Some p)
    from grows_captureLoop [of ?s3 en p 0] obtain cap where
      "trace (captureLoop en p 0 ?s3) = trace ?s3 @ cap" "list_all isCapture cap"
      unfolding grows_def by blast
    with Some show ?thesis unfolding c s3(4) by simp
  qed
qed

lemma readout_Some:
  assumes "readout en s = Some s'"
  shows "s' = (if mNextCapturedBuffers s = None then s
               else s\<lparr>mCapturedBuffers := mNextCapturedBuffers s,
                      mCaptureTime := mNextCaptureTime s,
                      trace := trace s
                        @ (if mCapturedBuffers s \<noteq> None then [ReadoutCompleteWait] else [])
                        @ [ReadoutAvailableSignal]\<rparr>)"
proof (cases "mNextCapturedBuffers s = None")
  case True
  with assms show ?thesis by (simp add: readout_def)
next
  case False
  show ?thesis
  proof (cases "mCapturedBuffers s = None")
    case True
    with False assms show ?thesis by (auto simp: readout_def emit_def)
  next
    case full: False
    with False assms obtain cb ct where
      "condWait en (trace s) (mCapturedBuffers s, mCaptureTime s) = Some (cb, ct)"
      by (auto simp: readout_def split: option.splits)
    with False full assms show ?thesis by (auto simp: readout_def emit_def)
  qed
qed

lemma threadLoop_stages:
  assumes "threadLoop en s = Some s'"
  shows "\<exists>s3. readout en
               (emit (SystemTime (systemTime en (trace s @ [VSyncSignal])))
                  (emit VSyncSignal (s\<lparr>mNextBuffers := None, mGotVSync := True\<rparr>))) = Some s3
         \<and> verticalBlank en (systemTime en (trace s @ [VSyncSignal]))
              (systemTime en (trace s @ [VSyncSignal]) + mFrameDuration s)
              (capture en
                 \<lparr>frameDuration = mFrameDuration s, nextBuffers = mNextBuffers s,
                  frameNumber = mFrameNumber s, listener = mListener s\<rparr>
                 (systemTime en (trace s @ [VSyncSignal])) s3) = Some s'"
  using assms
  by (simp add: threadLoop_def readControl_def readClock_def Let_def split: option.splits)

lemma threadLoop_Some:
  assumes "threadLoop en s = Some s'"
  shows
    "\<exists>cap tim.
       trace s' =
         trace s @ [VSyncSignal, SystemTime (systemTime en (trace s @ [VSyncSignal]))]
         @ (if mNextCapturedBuffers s = None then []
            else (if mCapturedBuffers s \<noteq> None then [ReadoutCompleteWait] else [])
                 @ [ReadoutAvailableSignal])
         @ (case mNextBuffers s of None \<Rightarrow> []
            | Some p \<Rightarrow> (case mListener s of None \<Rightarrow> []
                | Some l \<Rightarrow> [ExposureStart l (mFrameNumber s)
                                (systemTime en (trace s @ [VSyncSignal]))]))
         @ cap @ tim
       \<and> list_all isCapture cap \<and> list_all isTiming tim
       \<and> (mNextBuffers s = None \<longrightarrow> cap = [])"
    "mNextCaptureTime s' = systemTime en (trace s @ [VSyncSignal])"
    "mNextCapturedBuffers s' = mNextBuffers s"
    "mNextBuffers s' = None"
    "mGotVSync s' = True"
    "mCapturedBuffers s' =
       (if mNextCapturedBuffers s = None then mCapturedBuffers s else mNextCapturedBuffers s)"
    "mCaptureTime s' =
       (if mNextCapturedBuffers s = None then mCaptureTime s else mNextCaptureTime s)"
    "mFrameDuration s' = mFrameDuration s"
    "mFrameNumber s' = mFrameNumber s"
    "mListener s' = mListener s"
proof -
  define t where "t = systemTime en (trace s @ [VSyncSignal])"
  define c where "c = \<lparr>frameDuration = mFrameDuration s, nextBuffers = mNextBuffers s,
                  frameNumber = mFrameNumber s, listener = mListener s\<rparr>"
  define s2 where "s2 = emit (SystemTime t)
                  (emit VSyncSignal (s\<lparr>mNextBuffers := None, mGotVSync := True\<rparr>))"
  from threadLoop_stages [OF assms] obtain s3 where
    r: "readout en s2 = Some s3" and
    v: "verticalBlank en t (t + mFrameDuration s) (capture en c t s3) = Some s'"
    unfolding t_def c_def s2_def by blast
  have s2: "trace s2 = trace s @ [VSyncSignal, SystemTime t]"
    "mNextBuffers s2 = None" "mGotVSync s2 = True"
    "mNextCapturedBuffers s2 = mNextCapturedBuffers s" "mNextCaptureTime s2 = mNextCaptureTime s"
    "mCapturedBuffers s2 = mCapturedBuffers s" "mCaptureTime s2 = mCaptureTime s"
    "mFrameDuration s2 = mFrameDuration s" "mFrameNumber s2 = mFrameNumber s"
    "mListener s2 = mListener s"
    by (simp_all add: s2_def)
  have s3: "trace s3 = trace s @ [VSyncSignal, SystemTime t]
         @ (if mNextCapturedBuffers s = None then []
            else (if mCapturedBuffers s \<noteq> None then [ReadoutCompleteWait] else [])
                 @ [ReadoutAvailableSignal])"
    "mNextBuffers s3 = None" "mGotVSync s3 = True"
    "mCapturedBuffers s3 =
       (if mNextCapturedBuffers s = None then mCapturedBuffers s else mNextCapturedBuffers s)"
    "mCaptureTime s3 =
       (if mNextCapturedBuffers s = None then mCaptureTime s else mNextCaptureTime s)"
    "mFrameDuration s3 = mFrameDuration s" "mFrameNumber s3 = mFrameNumber s"
    "mListener s3 = mListener s"
    unfolding readout_Some [OF r] using s2 by simp_all
  let ?s4 = "capture en c t s3"
  have cf: "nextBuffers c = mNextBuffers s" "listener c = mListener s"
    "frameNumber c = mFrameNumber s"
    by (simp_all add: c_def)
  have k4: "kept ?s4 = kept s3" by (rule capture_fields)
  have n4: "mNextCaptureTime ?s4 = t" "mNextCapturedBuffers ?s4 = mNextBuffers s"
    by (simp_all add: capture_fields cf)
  from capture_fields(4) [of en c t s3] obtain cap where cap:
    "trace ?s4 = trace s3
           @ (case mNextBuffers s of None \<Rightarrow> []
              | Some p \<Rightarrow> (case mListener s of None \<Rightarrow> []
                           | Some l \<Rightarrow> [ExposureStart l (mFrameNumber s) t]))
           @ cap"
    "list_all isCapture cap" "mNextBuffers s = None \<longrightarrow> cap = []"
    unfolding cf by (elim exE conjE) (rule that)
  from idles_fields [OF verticalBlank_idles [OF v]] obtain tim where tim:
    "slots s' = slots ?s4" "trace s' = trace ?s4 @ tim" "list_all isTiming tim"
    by blast
  have k: "kept s' = kept s3"
    using slots_kept [OF tim(1)] k4 by simp
  show "mNextCaptureTime s' = systemTime en (trace s @ [VSyncSignal])"
    using slots_next [OF tim(1)] n4 by (simp add: t_def)
  show "mNextCapturedBuffers s' = mNextBuffers s"
    using slots_next [OF tim(1)] n4 by simp
  show "mNextBuffers s' = None" "mGotVSync s' = True"
    "mCapturedBuffers s' =
       (if mNextCapturedBuffers s = None then mCapturedBuffers s else mNextCapturedBuffers s)"
    "mCaptureTime s' =
       (if mNextCapturedBuffers s = None then mCaptureTime s else mNextCaptureTime s)"
    "mFrameDuration s' = mFrameDuration s"
    "mFrameNumber s' = mFrameNumber s"
    "mListener s' = mListener s"
    using k s3(2-) by (simp_all add: kept_def)
  have tr: "trace s' =
         trace s @ [VSyncSignal, SystemTime t]
         @ (if mNextCapturedBuffers s = None then []
            else (if mCapturedBuffers s \<noteq> None then [ReadoutCompleteWait] else [])
                 @ [ReadoutAvailableSignal])
         @ (case mNextBuffers s of None \<Rightarrow> []
            | Some p \<Rightarrow> (case mListener s of None \<Rightarrow> []
                | Some l \<Rightarrow> [ExposureStart l (mFrameNumber s) t]))
         @ cap @ tim"
    unfolding tim(2) cap(1) s3(1) by simp
  show "\<exists>cap tim.
       trace s' =
         trace s @ [VSyncSignal, SystemTime (systemTime en (trace s @ [VSyncSignal]))]
         @ (if mNextCapturedBuffers s = None then []
            else (if mCapturedBuffers s \<noteq> None then [ReadoutCompleteWait] else [])
                 @ [ReadoutAvailableSignal])
         @ (case mNextBuffers s of None \<Rightarrow> []
            | Some p \<Rightarrow> (case mListener s of None \<Rightarrow> []
                | Some l \<Rightarrow> [ExposureStart l (mFrameNumber s)
                                (systemTime en (trace s @ [VSyncSignal]))]))
         @ cap @ tim
       \<and> list_all isCapture cap \<and> list_all isTiming tim
       \<and> (mNextBuffers s = None \<longrightarrow> cap = [])"
    apply (rule exI [of _ cap])
    apply (rule exI [of _ tim])
    apply (intro conjI)
       apply (rule tr [unfolded t_def])
      apply (rule cap(2))
     apply (rule tim(3))
    apply (rule cap(3))
    done
qed

text \<open>
  An iteration returns whenever the wait on \<^verbatim>\<open>complete\<close> returns and \<^verbatim>\<open>nanosleep\<close> is
  not interrupted.
\<close>

lemma nanosleepLoop_returns:
  assumes "fst (nanosleep en (trace s) t) = 0"
  shows "nanosleepLoop en t s = Some (emit (Nanosleep t 0) s)"
  using assms by (subst nanosleepLoop.simps) (simp add: Let_def split_beta)

lemma readout_returns:
  assumes "\<And>tr r. condWait en tr r \<noteq> None"
  shows "\<exists>s'. readout en s = Some s'"
proof (cases "condWait en (trace s) (mCapturedBuffers s, mCaptureTime s)")
  case None
  with assms [of "trace s" "(mCapturedBuffers s, mCaptureTime s)"] show ?thesis
    by simp
next
  case (Some r)
  then show ?thesis
    by (cases r) (simp add: readout_def)
qed

lemma verticalBlank_returns:
  assumes "\<And>tr t. fst (nanosleep en tr t) = 0"
  shows "\<exists>s'. verticalBlank en st fe s = Some s'"
  by (simp add: verticalBlank_def Let_def split_beta nanosleepLoop_returns [OF assms])

lemma threadLoop_returns:
  assumes "\<And>tr r. condWait en tr r \<noteq> None" and "\<And>tr t. fst (nanosleep en tr t) = 0"
  shows "\<exists>s'. threadLoop en s = Some s'"
proof -
  obtain c s1 where c: "readControl s = (c, s1)" by (cases "readControl s")
  obtain t s2 where t: "readClock en s1 = (t, s2)" by (cases "readClock en s1")
  from readout_returns [OF assms(1), of s2] obtain s3 where r: "readout en s2 = Some s3"
    by blast
  from verticalBlank_returns [OF assms(2)] c t r show ?thesis
    by (simp add: threadLoop_def)
qed

lemmas thread_eval =
  loop_eval threadLoop_def readControl_def readClock_def readout_def verticalBlank_def
  nanosleepLoop.simps quot64_def rem64_def waiting_def firstFrame_def
  setDestinationBuffers_def setQemuSensorListener_def setFrameNumber_def readyToRun_def
  word_sless_alt signed_divide_int_def signed_modulo_int_def spurious_def stalled_def
  delivering_def wakeful_def overdue_def waitForNewFrame_def OK_def TIMED_OUT_def

lemma afterFirst_run:
  "threadLoop calm firstFrame = Some afterFirst
   \<and> since firstFrame afterFirst =
       [VSyncSignal, SystemTime 2000000, ExposureStart 5 1 2000000,
        Log (RestartingCamera 640 480 (- 1) (- 1)),
        QueryStart V4L2_PIX_FMT_NV21 640 480 0,
        QueryFrame (Some 0) None 460800 0 1 1 1 1 0,
        SystemTime 7000000, Nanosleep (0, 28331760) 0, SystemTime 9000000]
   \<and> mNextCapturedBuffers afterFirst = Some 0 \<and> mNextCaptureTime afterFirst = 2000000
   \<and> mNextBuffers afterFirst = None \<and> mCapturedBuffers afterFirst = None"
  by (simp add: afterFirst_def thread_eval)

lemma afterIdle_run:
  "threadLoop calm afterFirst = Some afterIdle
   \<and> filter isPipeline (since afterFirst afterIdle) = [VSyncSignal, ReadoutAvailableSignal]
   \<and> mNextCapturedBuffers afterIdle = None \<and> mNextBuffers afterIdle = None
   \<and> mCapturedBuffers afterIdle = Some 0 \<and> mCaptureTime afterIdle = 2000000
   \<and> waitForNewFrame calm 1000 0 afterIdle =
       (True, 2000000, (emit ReadoutCompleteSignal afterIdle)\<lparr>mCapturedBuffers := None\<rparr>)"
  by (simp add: afterIdle_def afterFirst_def thread_eval)

lemma afterSecond_run:
  "threadLoop calm secondFrame = Some afterSecond
   \<and> since secondFrame afterSecond =
       [VSyncSignal, SystemTime 11000000, ReadoutAvailableSignal,
        ExposureStart 5 2 11000000,
        QueryFrame (Some 0) None 460800 0 1 1 1 1 0,
        SystemTime 15000000, Nanosleep (0, 29331760) 0, SystemTime 17000000]
   \<and> mCapturedBuffers afterSecond = Some 0 \<and> mCaptureTime afterSecond = 2000000
   \<and> mNextCaptureTime afterSecond = 11000000
   \<and> systemTime calm
        (trace secondFrame @ [VSyncSignal, SystemTime 11000000, ReadoutAvailableSignal])
       = 13000000"
  by (simp add: afterSecond_def secondFrame_def afterFirst_def thread_eval)

subsection \<open>The control snapshot\<close>

text \<open>
  C4. Stage 1 of every iteration copies the frame duration, the frame number and the
  listener, takes the pointer to the next buffers and sets the slot to null, sets the
  VSync flag and signals the VSync condition (the stage is one function of the model, as
  the control mutex makes it one step). So after an iteration that took the pointer
  stored by \<^verbatim>\<open>setDestinationBuffers\<close> the slot is null, and the next iteration, with
  nothing stored in between, takes null: the pointer is consumed by at most one
  iteration.
\<close>

theorem control_snapshot:
  "fst (readControl s) =
     \<lparr>frameDuration = mFrameDuration s, nextBuffers = mNextBuffers s,
      frameNumber = mFrameNumber s, listener = mListener s\<rparr>
   \<and> mNextBuffers (snd (readControl s)) = None
   \<and> mGotVSync (snd (readControl s)) = True
   \<and> since s (snd (readControl s)) = [VSyncSignal]
   \<and> (threadLoop en (setDestinationBuffers b s) = Some sa
       \<longrightarrow> mNextCapturedBuffers sa = b \<and> mNextBuffers sa = None \<and> mGotVSync sa = True
           \<and> (\<exists>rest. since (setDestinationBuffers b s) sa = VSyncSignal # rest))
   \<and> (threadLoop en (setDestinationBuffers b s) = Some sa \<and> threadLoop en sa = Some sb
       \<longrightarrow> mNextCapturedBuffers sb = None \<and> mNextBuffers sb = None)"
proof -
  have 1: "fst (readControl s) =
     \<lparr>frameDuration = mFrameDuration s, nextBuffers = mNextBuffers s,
      frameNumber = mFrameNumber s, listener = mListener s\<rparr>
   \<and> mNextBuffers (snd (readControl s)) = None
   \<and> mGotVSync (snd (readControl s)) = True
   \<and> since s (snd (readControl s)) = [VSyncSignal]"
    by (simp add: readControl_def Let_def since_def)
  have 2: "mNextCapturedBuffers sa = b \<and> mNextBuffers sa = None \<and> mGotVSync sa = True
           \<and> (\<exists>rest. since (setDestinationBuffers b s) sa = VSyncSignal # rest)"
    if a: "threadLoop en (setDestinationBuffers b s) = Some sa"
  proof -
    from threadLoop_Some(1) [OF a] obtain rest where
      "trace sa = trace (setDestinationBuffers b s) @ VSyncSignal # rest"
      by (elim exE conjE) simp
    then have "\<exists>rest. since (setDestinationBuffers b s) sa = VSyncSignal # rest"
      by (simp add: since_append)
    with threadLoop_Some(3,4,5) [OF a] show ?thesis
      by (simp add: setDestinationBuffers_def)
  qed
  have 3: "mNextCapturedBuffers sb = None \<and> mNextBuffers sb = None"
    if a: "threadLoop en (setDestinationBuffers b s) = Some sa" and b: "threadLoop en sa = Some sb"
    using threadLoop_Some(3,4) [OF b] threadLoop_Some(4) [OF a] by simp
  from 1 2 3 show ?thesis by simp
qed

text \<open>C4 on two iterations after one submission: the first takes the vector at
  address 0, the second takes nothing.\<close>

theorem control_snapshot_witness:
  "threadLoop calm (setDestinationBuffers (Some 0) waiting) = Some afterFirst
   \<and> threadLoop calm afterFirst = Some afterIdle
   \<and> mNextCapturedBuffers afterFirst = Some 0 \<and> mNextBuffers afterFirst = None
   \<and> mNextCapturedBuffers afterIdle = None \<and> mNextBuffers afterIdle = None"
proof -
  have runs:
    "threadLoop calm (setDestinationBuffers (Some 0) waiting) = Some afterFirst
     \<and> threadLoop calm afterFirst = Some afterIdle
     \<and> mNextCapturedBuffers afterFirst = Some 0 \<and> mNextBuffers afterFirst = None
     \<and> mNextCapturedBuffers afterIdle = None \<and> mNextBuffers afterIdle = None"
    using afterFirst_run afterIdle_run by (simp add: firstFrame_def)
  show ?thesis
    by (rule conjunct2
          [OF conjI [OF control_snapshot [of waiting calm "Some 0" afterFirst afterIdle] runs]])
qed

subsection \<open>The order of the pipeline\<close>

text \<open>
  C5. An iteration that returns has appended, in this order: the VSync signal; the
  clock read; if the previous iteration took buffers, the hand-off of those buffers
  (after a wait on \<^verbatim>\<open>complete\<close> when the slot was full) that ends with the signal on
  \<^verbatim>\<open>available\<close>; if this iteration took buffers and a listener is set, the
  EXPOSURE_START notification; then the upstream calls and log messages of the capture;
  then clock reads and sleeps. So VSync of iteration i comes before readout-available of
  the buffers of iteration i - 1, which comes before EXPOSURE_START of iteration i.
  The set that the readout slot holds after the iteration is the one the previous
  iteration took (or what the slot held, when there was none); the set taken in this
  iteration is held back in \<^verbatim>\<open>mNextCapturedBuffers\<close>, and the next iteration that returns
  puts it in the slot with this iteration's timestamp.
\<close>

theorem pipeline_order:
  assumes "threadLoop en s = Some sa"
  shows
    "(\<exists>cap tim.
        since s sa =
          [VSyncSignal, SystemTime (mNextCaptureTime sa)]
          @ (if mNextCapturedBuffers s = None then []
             else (if mCapturedBuffers s \<noteq> None then [ReadoutCompleteWait] else [])
                  @ [ReadoutAvailableSignal])
          @ (case mNextBuffers s of None \<Rightarrow> []
             | Some p \<Rightarrow> (case mListener s of None \<Rightarrow> []
                 | Some l \<Rightarrow> [ExposureStart l (mFrameNumber s) (mNextCaptureTime sa)]))
          @ cap @ tim
        \<and> list_all isCapture cap \<and> list_all isTiming tim)
     \<and> filter isPipeline (since s sa) =
          [VSyncSignal]
          @ (if mNextCapturedBuffers s = None then [] else [ReadoutAvailableSignal])
          @ (case mNextBuffers s of None \<Rightarrow> []
             | Some p \<Rightarrow> (case mListener s of None \<Rightarrow> []
                 | Some l \<Rightarrow> [ExposureStart l (mFrameNumber s) (mNextCaptureTime sa)]))
     \<and> mCapturedBuffers sa =
          (if mNextCapturedBuffers s = None then mCapturedBuffers s else mNextCapturedBuffers s)
     \<and> mCaptureTime sa =
          (if mNextCapturedBuffers s = None then mCaptureTime s else mNextCaptureTime s)
     \<and> mNextCapturedBuffers sa = mNextBuffers s
     \<and> (threadLoop en sa = Some sb \<and> mNextBuffers s = Some p
         \<longrightarrow> mCapturedBuffers sb = Some p \<and> mCaptureTime sb = mNextCaptureTime sa
             \<and> filter isPipeline (since sa sb) =
                  [VSyncSignal, ReadoutAvailableSignal]
                  @ (case mNextBuffers sa of None \<Rightarrow> []
                     | Some q \<Rightarrow> (case mListener sa of None \<Rightarrow> []
                        | Some l \<Rightarrow> [ExposureStart l (mFrameNumber sa) (mNextCaptureTime sb)])))"
proof -
  have pipe: "filter isPipeline evs = []" if "list_all (\<lambda>e. isCapture e \<or> isTiming e) evs" for evs
    using that
  proof (induction evs)
    case Nil
    then show ?case by simp
  next
    case (Cons e evs)
    then show ?case by (cases e) simp_all
  qed
  have shape: "(\<exists>cap tim.
        since x y =
          [VSyncSignal, SystemTime (mNextCaptureTime y)]
          @ (if mNextCapturedBuffers x = None then []
             else (if mCapturedBuffers x \<noteq> None then [ReadoutCompleteWait] else [])
                  @ [ReadoutAvailableSignal])
          @ (case mNextBuffers x of None \<Rightarrow> []
             | Some p \<Rightarrow> (case mListener x of None \<Rightarrow> []
                 | Some l \<Rightarrow> [ExposureStart l (mFrameNumber x) (mNextCaptureTime y)]))
          @ cap @ tim
        \<and> list_all isCapture cap \<and> list_all isTiming tim)
     \<and> filter isPipeline (since x y) =
          [VSyncSignal]
          @ (if mNextCapturedBuffers x = None then [] else [ReadoutAvailableSignal])
          @ (case mNextBuffers x of None \<Rightarrow> []
             | Some p \<Rightarrow> (case mListener x of None \<Rightarrow> []
                 | Some l \<Rightarrow> [ExposureStart l (mFrameNumber x) (mNextCaptureTime y)]))"
    if a: "threadLoop en x = Some y" for x y
  proof -
    from threadLoop_Some(1) [OF a] obtain cap tim where tr:
      "trace y =
         trace x @ [VSyncSignal, SystemTime (systemTime en (trace x @ [VSyncSignal]))]
         @ (if mNextCapturedBuffers x = None then []
            else (if mCapturedBuffers x \<noteq> None then [ReadoutCompleteWait] else [])
                 @ [ReadoutAvailableSignal])
         @ (case mNextBuffers x of None \<Rightarrow> []
            | Some p \<Rightarrow> (case mListener x of None \<Rightarrow> []
                | Some l \<Rightarrow> [ExposureStart l (mFrameNumber x)
                                (systemTime en (trace x @ [VSyncSignal]))]))
         @ cap @ tim"
      and ct: "list_all isCapture cap" "list_all isTiming tim"
      by (elim exE conjE) (rule that)
    have f: "filter isPipeline cap = []" "filter isPipeline tim = []"
      using ct by (auto intro!: pipe elim: list.pred_mono_strong)
    note si = since_append [OF tr, folded threadLoop_Some(2) [OF a]]
    have 1: "\<exists>cap tim.
        since x y =
          [VSyncSignal, SystemTime (mNextCaptureTime y)]
          @ (if mNextCapturedBuffers x = None then []
             else (if mCapturedBuffers x \<noteq> None then [ReadoutCompleteWait] else [])
                  @ [ReadoutAvailableSignal])
          @ (case mNextBuffers x of None \<Rightarrow> []
             | Some p \<Rightarrow> (case mListener x of None \<Rightarrow> []
                 | Some l \<Rightarrow> [ExposureStart l (mFrameNumber x) (mNextCaptureTime y)]))
          @ cap @ tim
        \<and> list_all isCapture cap \<and> list_all isTiming tim"
      apply (rule exI [of _ cap])
      apply (rule exI [of _ tim])
      apply (intro conjI)
        apply (rule si)
       apply (rule ct(1))
      apply (rule ct(2))
      done
    have 2: "filter isPipeline (since x y) =
          [VSyncSignal]
          @ (if mNextCapturedBuffers x = None then [] else [ReadoutAvailableSignal])
          @ (case mNextBuffers x of None \<Rightarrow> []
             | Some p \<Rightarrow> (case mListener x of None \<Rightarrow> []
                 | Some l \<Rightarrow> [ExposureStart l (mFrameNumber x) (mNextCaptureTime y)]))"
      unfolding si using f by (simp split: option.splits)
    from 1 2 show ?thesis by (rule conjI)
  qed
  note one = shape [OF assms]
  have slot: "mCapturedBuffers sa =
          (if mNextCapturedBuffers s = None then mCapturedBuffers s else mNextCapturedBuffers s)"
    "mCaptureTime sa =
          (if mNextCapturedBuffers s = None then mCaptureTime s else mNextCaptureTime s)"
    "mNextCapturedBuffers sa = mNextBuffers s"
    using threadLoop_Some(6,7,3) [OF assms] by simp_all
  have two: "mCapturedBuffers sb = Some p \<and> mCaptureTime sb = mNextCaptureTime sa
             \<and> filter isPipeline (since sa sb) =
                  [VSyncSignal, ReadoutAvailableSignal]
                  @ (case mNextBuffers sa of None \<Rightarrow> []
                     | Some q \<Rightarrow> (case mListener sa of None \<Rightarrow> []
                        | Some l \<Rightarrow> [ExposureStart l (mFrameNumber sa) (mNextCaptureTime sb)]))"
    if b: "threadLoop en sa = Some sb" and p: "mNextBuffers s = Some p"
  proof -
    have n: "mNextCapturedBuffers sa = Some p"
      using slot(3) p by simp
    from shape [OF b] n threadLoop_Some(6,7) [OF b] show ?thesis by simp
  qed
  have two': "threadLoop en sa = Some sb \<and> mNextBuffers s = Some p
         \<longrightarrow> mCapturedBuffers sb = Some p \<and> mCaptureTime sb = mNextCaptureTime sa
             \<and> filter isPipeline (since sa sb) =
                  [VSyncSignal, ReadoutAvailableSignal]
                  @ (case mNextBuffers sa of None \<Rightarrow> []
                     | Some q \<Rightarrow> (case mListener sa of None \<Rightarrow> []
                        | Some l \<Rightarrow> [ExposureStart l (mFrameNumber sa) (mNextCaptureTime sb)]))"
    using two by (intro impI) (elim conjE)
  show ?thesis
    by (intro conjI)
       (rule one [THEN conjunct1], rule one [THEN conjunct2], rule slot(1), rule slot(2),
        rule slot(3), rule two')
qed

text \<open>C5 on the first iteration, the idle iteration after it, and a second frame.\<close>

theorem pipeline_order_witness:
  "threadLoop calm firstFrame = Some afterFirst
   \<and> threadLoop calm afterFirst = Some afterIdle
   \<and> mNextBuffers firstFrame = Some 0
   \<and> filter isPipeline (since firstFrame afterFirst) =
       [VSyncSignal, ExposureStart 5 1 2000000]
   \<and> mCapturedBuffers afterFirst = None
   \<and> filter isPipeline (since afterFirst afterIdle) = [VSyncSignal, ReadoutAvailableSignal]
   \<and> mCapturedBuffers afterIdle = Some 0 \<and> mCaptureTime afterIdle = 2000000
   \<and> filter isPipeline (since secondFrame afterSecond) =
       [VSyncSignal, ReadoutAvailableSignal, ExposureStart 5 2 11000000]"
proof -
  have h: "threadLoop calm firstFrame = Some afterFirst"
    using afterFirst_run by simp
  have runs:
    "threadLoop calm firstFrame = Some afterFirst
     \<and> threadLoop calm afterFirst = Some afterIdle
     \<and> mNextBuffers firstFrame = Some 0
     \<and> filter isPipeline (since firstFrame afterFirst) =
         [VSyncSignal, ExposureStart 5 1 2000000]
     \<and> mCapturedBuffers afterFirst = None
     \<and> filter isPipeline (since afterFirst afterIdle) = [VSyncSignal, ReadoutAvailableSignal]
     \<and> mCapturedBuffers afterIdle = Some 0 \<and> mCaptureTime afterIdle = 2000000
     \<and> filter isPipeline (since secondFrame afterSecond) =
         [VSyncSignal, ReadoutAvailableSignal, ExposureStart 5 2 11000000]"
    using afterFirst_run afterIdle_run afterSecond_run
    by (simp add: firstFrame_def setDestinationBuffers_def)
  show ?thesis
    by (rule conjunct2
          [OF conjI [OF pipeline_order [OF h, of afterIdle 0] runs]])
qed

subsection \<open>Collecting a frame\<close>

lemma waitForNewFrame_full:
  assumes "mCapturedBuffers s \<noteq> None"
  shows "waitForNewFrame en reltime ct s =
           (True, mCaptureTime s, (emit ReadoutCompleteSignal s)\<lparr>mCapturedBuffers := None\<rparr>)"
  using assms by (cases "mCapturedBuffers s") (simp_all add: waitForNewFrame_def Let_def)





subsection \<open>The capture timestamp\<close>

text \<open>
  C10. The timestamp that an iteration gives its buffers (\<^verbatim>\<open>mNextCaptureTime\<close>) is the
  clock as read right after the VSync signal: the read is the second event of the
  iteration, before the hand-off of the previous readout (which may wait) and before
  every upstream call, all of which come after it in the trace. It is the time that the
  iteration's EXPOSURE_START notification carries, the time that the next iteration
  publishes in the readout slot with these buffers, and the time that
  \<^verbatim>\<open>waitForNewFrame\<close> then writes to \<^verbatim>\<open>*captureTime\<close>. It is not read again when the
  capture begins.
\<close>

theorem capture_timestamp:
  assumes "threadLoop en s = Some sa"
  shows "mNextCaptureTime sa = systemTime en (trace s @ [VSyncSignal])
     \<and> (\<exists>rest. since s sa = VSyncSignal # SystemTime (mNextCaptureTime sa) # rest
           \<and> (mNextCapturedBuffers s \<noteq> None \<longrightarrow> ReadoutAvailableSignal \<in> set rest)
           \<and> (\<forall>l n t. ExposureStart l n t \<in> set rest \<longrightarrow> t = mNextCaptureTime sa)
           \<and> (\<forall>p l. mNextBuffers s = Some p \<and> mListener s = Some l
                 \<longrightarrow> ExposureStart l (mFrameNumber s) (mNextCaptureTime sa) \<in> set rest))
     \<and> (threadLoop en sa = Some sb \<and> mNextBuffers s \<noteq> None
         \<longrightarrow> mCaptureTime sb = mNextCaptureTime sa
           \<and> fst (waitForNewFrame en reltime ct sb) = True
           \<and> fst (snd (waitForNewFrame en reltime ct sb)) = mNextCaptureTime sa)"
proof -
  have notexp: "ExposureStart l n t \<notin> set evs"
    if "list_all (\<lambda>e. isCapture e \<or> isTiming e) evs" for evs l n t
    using that
  proof (induction evs)
    case Nil
    then show ?case by simp
  next
    case (Cons e evs)
    then show ?case by (cases e) simp_all
  qed
  from threadLoop_Some(1) [OF assms] obtain cap tim where tr:
      "trace sa =
         trace s @ [VSyncSignal, SystemTime (systemTime en (trace s @ [VSyncSignal]))]
         @ (if mNextCapturedBuffers s = None then []
            else (if mCapturedBuffers s \<noteq> None then [ReadoutCompleteWait] else [])
                 @ [ReadoutAvailableSignal])
         @ (case mNextBuffers s of None \<Rightarrow> []
            | Some p \<Rightarrow> (case mListener s of None \<Rightarrow> []
                | Some l \<Rightarrow> [ExposureStart l (mFrameNumber s)
                                (systemTime en (trace s @ [VSyncSignal]))]))
         @ cap @ tim"
      and ct: "list_all isCapture cap" "list_all isTiming tim"
    by (elim exE conjE) (rule that)
  note t = threadLoop_Some(2) [OF assms]
  let ?rest = "(if mNextCapturedBuffers s = None then []
            else (if mCapturedBuffers s \<noteq> None then [ReadoutCompleteWait] else [])
                 @ [ReadoutAvailableSignal])
         @ (case mNextBuffers s of None \<Rightarrow> []
            | Some p \<Rightarrow> (case mListener s of None \<Rightarrow> []
                | Some l \<Rightarrow> [ExposureStart l (mFrameNumber s) (mNextCaptureTime sa)]))
         @ cap @ tim"
  have si: "since s sa = VSyncSignal # SystemTime (mNextCaptureTime sa) # ?rest"
    using since_append [OF tr, folded t] by simp
  have ne: "ExposureStart l n t \<notin> set cap" "ExposureStart l n t \<notin> set tim" for l n t
    using ct by (auto intro!: notexp elim: list.pred_mono_strong)
  have a: "mNextCapturedBuffers s \<noteq> None \<longrightarrow> ReadoutAvailableSignal \<in> set ?rest"
    by simp
  have b: "\<forall>l n t. ExposureStart l n t \<in> set ?rest \<longrightarrow> t = mNextCaptureTime sa"
    using ne by (auto split: option.splits if_splits)
  have c: "\<forall>p l. mNextBuffers s = Some p \<and> mListener s = Some l
                 \<longrightarrow> ExposureStart l (mFrameNumber s) (mNextCaptureTime sa) \<in> set ?rest"
    by simp
  have 2: "\<exists>rest. since s sa = VSyncSignal # SystemTime (mNextCaptureTime sa) # rest
           \<and> (mNextCapturedBuffers s \<noteq> None \<longrightarrow> ReadoutAvailableSignal \<in> set rest)
           \<and> (\<forall>l n t. ExposureStart l n t \<in> set rest \<longrightarrow> t = mNextCaptureTime sa)
           \<and> (\<forall>p l. mNextBuffers s = Some p \<and> mListener s = Some l
                 \<longrightarrow> ExposureStart l (mFrameNumber s) (mNextCaptureTime sa) \<in> set rest)"
    apply (rule exI [of _ ?rest])
    apply (intro conjI)
       apply (rule si)
      apply (rule a)
     apply (rule b)
    apply (rule c)
    done
  have 3: "threadLoop en sa = Some sb \<and> mNextBuffers s \<noteq> None
         \<longrightarrow> mCaptureTime sb = mNextCaptureTime sa
           \<and> fst (waitForNewFrame en reltime ct sb) = True
           \<and> fst (snd (waitForNewFrame en reltime ct sb)) = mNextCaptureTime sa"
  proof (intro impI, elim conjE)
    assume b: "threadLoop en sa = Some sb" and p: "mNextBuffers s \<noteq> None"
    from p threadLoop_Some(3) [OF assms] have n: "mNextCapturedBuffers sa \<noteq> None" by simp
    with threadLoop_Some(6,7) [OF b] have
      slot: "mCapturedBuffers sb \<noteq> None" "mCaptureTime sb = mNextCaptureTime sa"
      by simp_all
    from waitForNewFrame_full [OF slot(1), of en reltime ct] slot(2)
    show "mCaptureTime sb = mNextCaptureTime sa
           \<and> fst (waitForNewFrame en reltime ct sb) = True
           \<and> fst (snd (waitForNewFrame en reltime ct sb)) = mNextCaptureTime sa"
      by simp
  qed
  show ?thesis
    by (intro conjI) (rule t, rule 2, rule 3)
qed

text \<open>
  C10 on the first frame, and on a second frame whose iteration hands off the first:
  the timestamp is 11 ms, read before the hand-off, while the clock stands at 13 ms when
  the notification is sent.
\<close>

theorem capture_timestamp_witness:
  "threadLoop calm firstFrame = Some afterFirst
   \<and> threadLoop calm afterFirst = Some afterIdle
   \<and> mNextBuffers firstFrame \<noteq> None
   \<and> mNextCaptureTime afterFirst = 2000000
   \<and> mCaptureTime afterIdle = 2000000
   \<and> waitForNewFrame calm 1000 0 afterIdle =
       (True, 2000000, (emit ReadoutCompleteSignal afterIdle)\<lparr>mCapturedBuffers := None\<rparr>)
   \<and> since secondFrame afterSecond =
       [VSyncSignal, SystemTime 11000000, ReadoutAvailableSignal,
        ExposureStart 5 2 11000000,
        QueryFrame (Some 0) None 460800 0 1 1 1 1 0,
        SystemTime 15000000, Nanosleep (0, 29331760) 0, SystemTime 17000000]
   \<and> mNextCaptureTime afterSecond = 11000000
   \<and> systemTime calm
        (trace secondFrame @ [VSyncSignal, SystemTime 11000000, ReadoutAvailableSignal])
       = 13000000"
proof -
  have h: "threadLoop calm firstFrame = Some afterFirst"
    using afterFirst_run by simp
  have runs:
    "threadLoop calm firstFrame = Some afterFirst
     \<and> threadLoop calm afterFirst = Some afterIdle
     \<and> mNextBuffers firstFrame \<noteq> None
     \<and> mNextCaptureTime afterFirst = 2000000
     \<and> mCaptureTime afterIdle = 2000000
     \<and> waitForNewFrame calm 1000 0 afterIdle =
         (True, 2000000, (emit ReadoutCompleteSignal afterIdle)\<lparr>mCapturedBuffers := None\<rparr>)
     \<and> since secondFrame afterSecond =
         [VSyncSignal, SystemTime 11000000, ReadoutAvailableSignal,
          ExposureStart 5 2 11000000,
          QueryFrame (Some 0) None 460800 0 1 1 1 1 0,
          SystemTime 15000000, Nanosleep (0, 29331760) 0, SystemTime 17000000]
     \<and> mNextCaptureTime afterSecond = 11000000
     \<and> systemTime calm
          (trace secondFrame @ [VSyncSignal, SystemTime 11000000, ReadoutAvailableSignal])
         = 13000000"
    using afterFirst_run afterIdle_run afterSecond_run
    by (simp add: firstFrame_def setDestinationBuffers_def)
  show ?thesis
    by (rule conjunct2
          [OF conjI [OF capture_timestamp [OF h, of afterIdle 1000 0] runs]])
qed

subsection \<open>The hand-off of the readout\<close>

text \<open>
  What the hand-off does when it returns is \<open>readout_Some\<close>: it stores the set and its
  timestamp and signals \<^verbatim>\<open>available\<close>, after one wait on \<^verbatim>\<open>complete\<close> when the slot was
  full.

  C3 fails on the code. The slot still holds the unread set at address 1 when the wait
  on \<^verbatim>\<open>complete\<close> returns, no consumer having collected it and \<^verbatim>\<open>complete\<close> not having
  been signalled. Line 251 is an \<^verbatim>\<open>if\<close>: the worker does not test the slot again, and
  stores the set at address 2 over the unread one.
\<close>

theorem readout_overwrites_unread:
  "mCapturedBuffers stalled = Some 1 \<and> mCaptureTime stalled = 100
   \<and> mNextCapturedBuffers stalled = Some 2 \<and> mNextCaptureTime stalled = 200
   \<and> condWait spurious (trace stalled) (Some 1, 100) = Some (Some 1, 100)
   \<and> map_option mCapturedBuffers (readout spurious stalled) = Some (Some 2)
   \<and> map_option mCaptureTime (readout spurious stalled) = Some 200
   \<and> map_option (since stalled) (readout spurious stalled) =
       Some [ReadoutCompleteWait, ReadoutAvailableSignal]"
  by (simp add: thread_eval)

subsection \<open>The frame period\<close>

text \<open>
  C7, as the code has it: \<^verbatim>\<open>setFrameDuration\<close> stores its argument as it is given, for
  every argument, and does not clamp it. The stored frame period lies in the range of
  \<^verbatim>\<open>kFrameDurationRange\<close>, 33331760 to 300000000 nanoseconds, exactly when the caller's
  argument does; the constructor's initial period, 33331760, lies in it.
\<close>

theorem setFrameDuration_stores_argument:
  "mFrameDuration (setFrameDuration ns s) = ns
   \<and> ((fst kFrameDurationRange \<le> mFrameDuration (setFrameDuration ns s)
        \<and> mFrameDuration (setFrameDuration ns s) \<le> snd kFrameDurationRange)
       = (33331760 \<le> ns \<and> ns \<le> 300000000))
   \<and> mFrameDuration (QemuSensor raw) = 33331760"
  by (simp add: setFrameDuration_def QemuSensor_def kFrameDurationRange_def)

text \<open>
  C7 as the claim states it fails: after \<^verbatim>\<open>setFrameDuration(1000)\<close> on a newly
  constructed sensor the stored frame period is 1000 nanoseconds, below the range.
\<close>

theorem setFrameDuration_not_clamped:
  "mFrameDuration (setFrameDuration 1000 (QemuSensor zeroed)) = 1000
   \<and> mFrameDuration (setFrameDuration 1000 (QemuSensor zeroed)) < fst kFrameDurationRange"
  by (simp add: setFrameDuration_def QemuSensor_def kFrameDurationRange_def)

end
